theory Spec2Isabelle
  imports Main "HOL-Library.Sublist" "HOL-Library.AList"
begin

section \<open>Errors\<close>

text \<open>
  The exceptions that \<^verbatim>\<open>hub/api/dataset.py\<close> raises itself, those of the Python
  runtime that its own statements can raise, and \<open>ExternalError\<close> for whatever a
  collaborator that is not part of the file (schema code, tensor store) may raise.
\<close>

datatype exn =
    HubDatasetNotFoundException
  | NotHubDatasetToOverwriteException
  | NotHubDatasetToAppendException
  | AssertionError
  | ValueError string
  | KeyError string
  | IndexError
  | AttributeError
  | FileExistsError
  | JSONDecodeError
  | ExternalError string

section \<open>Paths\<close>

text \<open>\<^verbatim>\<open>str.split(sep)\<close> for a one-character separator: never returns the empty list.\<close>

fun split_on :: "char \<Rightarrow> string \<Rightarrow> string list" where
  "split_on c [] = [[]]"
| "split_on c (x # xs) =
     (if x = c then [] # split_on c xs
      else (case split_on c xs of [] \<Rightarrow> [[x]] | w # ws \<Rightarrow> (x # w) # ws))"

text \<open>\<^verbatim>\<open>str.startswith\<close> and \<^verbatim>\<open>str.endswith\<close>.\<close>

definition startswith :: "string \<Rightarrow> string \<Rightarrow> bool" where
  "startswith s p = (take (length p) s = p)"

definition endswith :: "string \<Rightarrow> string \<Rightarrow> bool" where
  "endswith s p = (length p \<le> length s \<and> drop (length s - length p) s = p)"

text \<open>\<^verbatim>\<open>posixpath.join(a, b)\<close> for two components.\<close>

definition posixpath_join :: "string \<Rightarrow> string \<Rightarrow> string" where
  "posixpath_join a b =
     (if startswith b ''/'' then b
      else if a = [] \<or> endswith a ''/'' then a @ b
      else a @ ''/'' @ b)"

text \<open>
  The file system addresses an entry by the non-empty segments of its path, so that
  \<^verbatim>\<open>a/b\<close>, \<^verbatim>\<open>a/b/\<close> and \<^verbatim>\<open>a//b\<close> name the same entry.
\<close>

definition segs :: "string \<Rightarrow> string list" where
  "segs p = filter (\<lambda>s. s \<noteq> []) (split_on CHR ''/'' p)"

section \<open>The file system and the log of calls\<close>

text \<open>
  The file system (\<^verbatim>\<open>fsspec\<close>) is a collaborator of the dataset. It is modelled as an
  association list from segment lists to nodes. The descriptor \<^verbatim>\<open>meta.json\<close> holds the
  JSON object \<^verbatim>\<open>{"shape": ..., "schema": ..., "version": ...}\<close>; its schema entry is of
  the type \<open>'j\<close> of serialized schemas, and encoding to bytes and back is the identity.
  The storage map \<^verbatim>\<open>fs_map\<close> of the dataset is the view of the file system below the
  dataset's path (the \<^verbatim>\<open>fs_map\<close> override and the cache are not modelled).
\<close>

datatype 'j node = Dir | MetaFile "int option list" 'j nat | OtherFile

type_synonym 'j files = "(string list \<times> 'j node) list"

datatype call =
    CallRm string
  | CallMakedirs string
  | CallSetMeta string
  | CallDynamicTensor string
  | CallCommit
  | CallTensorCommit string
  | CallTensorSetitem string

record 'j world =
  files :: "'j files"
  calls :: "call list"

definition fs_exists :: "'j world \<Rightarrow> string \<Rightarrow> bool" where
  "fs_exists w p = (map_of (files w) (segs p) \<noteq> None)"

definition rm_tree :: "string list \<Rightarrow> 'j files \<Rightarrow> 'j files" where
  "rm_tree sp fs = filter (\<lambda>kv. \<not> prefix sp (fst kv)) fs"

text \<open>\<^verbatim>\<open>fs.rm(path, recursive=True)\<close>: the entry and everything below it.\<close>

definition fs_rm :: "string \<Rightarrow> 'j world \<Rightarrow> 'j world" where
  "fs_rm p w = w\<lparr>files := rm_tree (segs p) (files w), calls := calls w @ [CallRm p]\<rparr>"

definition add_dir :: "'j files \<Rightarrow> string list \<Rightarrow> 'j files" where
  "add_dir fs k = (if map_of fs k = None then fs @ [(k, Dir)] else fs)"

text \<open>
  \<^verbatim>\<open>fs.makedirs(path)\<close> with the default \<^verbatim>\<open>exist_ok=False\<close>: fails when the target
  exists, creates the target and its missing ancestors otherwise.
\<close>

definition fs_makedirs :: "string \<Rightarrow> 'j world \<Rightarrow> exn option \<times> 'j world" where
  "fs_makedirs p w =
     (let w' = w\<lparr>calls := calls w @ [CallMakedirs p]\<rparr> in
      if fs_exists w p then (Some FileExistsError, w')
      else (None, w'\<lparr>files := foldl add_dir (files w) (prefixes (segs p))\<rparr>))"

definition listdir :: "'j world \<Rightarrow> string \<Rightarrow> string list list" where
  "listdir w p =
     remdups (filter (\<lambda>k. k \<noteq> [] \<and> butlast k = segs p) (map fst (files w)))"

definition get_file_count :: "'j world \<Rightarrow> string \<Rightarrow> nat" where
  "get_file_count w p = length (listdir w p)"

text \<open>\<^verbatim>\<open>fs_map["meta.json"] = bytes(json.dumps(meta), "utf-8")\<close>.\<close>

definition fs_map_set_meta ::
  "string \<Rightarrow> int option list \<Rightarrow> 'j \<Rightarrow> nat \<Rightarrow> 'j world \<Rightarrow> 'j world" where
  "fs_map_set_meta path sh j v w =
     w\<lparr>files := AList.update (segs (posixpath_join path ''meta.json'')) (MetaFile sh j v) (files w),
       calls := calls w @ [CallSetMeta path]\<rparr>"

text \<open>\<^verbatim>\<open>json.loads(fs_map["meta.json"].decode("utf-8"))\<close>, read for its shape and schema.\<close>

definition fs_map_get_meta :: "string \<Rightarrow> 'j world \<Rightarrow> exn + (int option list \<times> 'j)" where
  "fs_map_get_meta path w =
     (case map_of (files w) (segs (posixpath_join path ''meta.json'')) of
        None \<Rightarrow> Inl (KeyError ''meta.json'')
      | Some Dir \<Rightarrow> Inl (KeyError ''meta.json'')
      | Some OtherFile \<Rightarrow> Inl JSONDecodeError
      | Some (MetaFile sh j v) \<Rightarrow> Inr (sh, j))"

section \<open>Lifecycle resolution\<close>

text \<open>
  \<^verbatim>\<open>Dataset._check_and_prepare_dir\<close>: returns whether the dataset has to be created
  (\<open>True\<close>) or is opened (\<open>False\<close>). \<^verbatim>\<open>"w" in mode\<close> is a substring test with a
  one-character pattern.
\<close>

definition check_and_prepare_dir ::
  "string \<Rightarrow> string \<Rightarrow> 'j world \<Rightarrow> (exn + bool) \<times> 'j world" where
  "check_and_prepare_dir path mode w =
     (let exist_meta = fs_exists w (posixpath_join path ''meta.json'') in
      if exist_meta then
        (if CHR ''w'' \<in> set mode then
           (case fs_makedirs path (fs_rm path w) of
              (Some e, w') \<Rightarrow> (Inl e, w')
            | (None, w') \<Rightarrow> (Inr True, w'))
         else (Inr False, w))
      else
        (if CHR ''r'' \<in> set mode then (Inl HubDatasetNotFoundException, w)
         else
           (let exist_dir = fs_exists w path in
            if \<not> exist_dir then
              (case fs_makedirs path w of
                 (Some e, w') \<Rightarrow> (Inl e, w')
               | (None, w') \<Rightarrow> (Inr True, w'))
            else if get_file_count w path > 0 then
              (if CHR ''w'' \<in> set mode then (Inl NotHubDatasetToOverwriteException, w)
               else (Inl NotHubDatasetToAppendException, w))
            else (Inr True, w))))"

section \<open>Field descriptors, handles and the collaborators of the constructor\<close>

text \<open>
  \<^verbatim>\<open>FlatTensor\<close> is declared outside the file; its fields are those the file reads
  (\<^verbatim>\<open>path\<close>, \<^verbatim>\<open>shape\<close>, \<^verbatim>\<open>max_shape\<close>, \<^verbatim>\<open>dtype\<close>, \<^verbatim>\<open>chunks\<close>). A dimension is
  an integer or \<^verbatim>\<open>None\<close>.
\<close>

record flat_tensor =
  ft_path :: string
  ft_shape :: "int option list"
  ft_max_shape :: "int option list"
  ft_dtype :: string
  ft_chunks :: "int list option"

text \<open>
  The keyword arguments of one \<^verbatim>\<open>DynamicTensor(...)\<close> call. The storage argument
  \<^verbatim>\<open>MetaStorage(t.path, get_storage_map(fs, path), self._fs_map)\<close> is given by the
  field path, the field's directory and the dataset's path. \<^verbatim>\<open>_open_storage_tensors\<close>
  passes no \<^verbatim>\<open>max_shape\<close>, \<^verbatim>\<open>dtype\<close> or \<^verbatim>\<open>chunks\<close>.
\<close>

record tensor_args =
  ta_key :: string
  ta_dir :: string
  ta_root :: string
  ta_mode :: string
  ta_shape :: "int option list"
  ta_max_shape :: "int option list option"
  ta_dtype :: "string option"
  ta_chunks :: "int list option option"

text \<open>
  The collaborators the constructor and \<^verbatim>\<open>commit\<close> call, as parameters: \<open>'i\<close> is what
  the caller passes as schema, \<open>'s\<close> a schema object, \<open>'j\<close> its serialized form and
  \<open>'h\<close> a field handle. A handle constructor and a handle's commit may write to the
  file system.
\<close>

record ('i, 's, 'j, 'h) ext =
  get_fs_and_path :: "string \<Rightarrow> string"
  featurify :: "'i \<Rightarrow> exn + 's"
  serialize :: "'s \<Rightarrow> exn + 'j"
  deserialize :: "'j \<Rightarrow> exn + 's"
  flatten :: "'s \<Rightarrow> exn + flat_tensor list"
  DynamicTensor :: "tensor_args \<Rightarrow> 'j files \<Rightarrow> (exn + 'h) \<times> 'j files"
  tensor_commit :: "'h \<Rightarrow> 'j files \<Rightarrow> exn option \<times> 'h \<times> 'j files"

definition new_tensor ::
  "('i, 's, 'j, 'h) ext \<Rightarrow> tensor_args \<Rightarrow> 'j world \<Rightarrow> (exn + 'h) \<times> 'j world" where
  "new_tensor x a w =
     (case DynamicTensor x a (files w) of
        (r, fs') \<Rightarrow> (r, w\<lparr>files := fs', calls := calls w @ [CallDynamicTensor (ta_key a)]\<rparr>))"

section \<open>The dataset\<close>

record ('s, 'h) dataset =
  url :: string
  mode :: string
  path :: string
  shape :: "int option list"
  schema :: 's
  flat_tensors :: "flat_tensor list"
  tensors :: "(string \<times> 'h) list"

text \<open>
  \<^verbatim>\<open>dict(self._generate_storage_tensors())\<close>: the generator is consumed pair by pair
  into a dictionary (a later pair with the same key replaces the value and keeps the
  key's position); an exception ends the loop.
\<close>

fun generate_storage_tensors ::
  "('i, 's, 'j, 'h) ext \<Rightarrow> string \<Rightarrow> string \<Rightarrow> int option list \<Rightarrow> flat_tensor list \<Rightarrow>
   (string \<times> 'h) list \<Rightarrow> 'j world \<Rightarrow> (exn + (string \<times> 'h) list) \<times> 'j world" where
  "generate_storage_tensors x pth md sh [] acc w = (Inr acc, w)"
| "generate_storage_tensors x pth md sh (t # ts) acc w =
     (let p = posixpath_join pth (drop 1 (ft_path t)) in
      case fs_makedirs (posixpath_join p ''--dynamic--'') w of
        (Some e, w1) \<Rightarrow> (Inl e, w1)
      | (None, w1) \<Rightarrow>
          (case new_tensor x
                  \<lparr>ta_key = ft_path t, ta_dir = p, ta_root = pth, ta_mode = md,
                   ta_shape = sh @ ft_shape t, ta_max_shape = Some (sh @ ft_max_shape t),
                   ta_dtype = Some (ft_dtype t), ta_chunks = Some (ft_chunks t)\<rparr> w1 of
             (Inl e, w2) \<Rightarrow> (Inl e, w2)
           | (Inr h, w2) \<Rightarrow>
               generate_storage_tensors x pth md sh ts (AList.update (ft_path t) h acc) w2))"

fun open_storage_tensors ::
  "('i, 's, 'j, 'h) ext \<Rightarrow> string \<Rightarrow> string \<Rightarrow> int option list \<Rightarrow> flat_tensor list \<Rightarrow>
   (string \<times> 'h) list \<Rightarrow> 'j world \<Rightarrow> (exn + (string \<times> 'h) list) \<times> 'j world" where
  "open_storage_tensors x pth md sh [] acc w = (Inr acc, w)"
| "open_storage_tensors x pth md sh (t # ts) acc w =
     (let p = posixpath_join pth (drop 1 (ft_path t)) in
      case new_tensor x
             \<lparr>ta_key = ft_path t, ta_dir = p, ta_root = pth, ta_mode = md,
              ta_shape = sh @ ft_shape t, ta_max_shape = None,
              ta_dtype = None, ta_chunks = None\<rparr> w of
        (Inl e, w1) \<Rightarrow> (Inl e, w1)
      | (Inr h, w1) \<Rightarrow>
          open_storage_tensors x pth md sh ts (AList.update (ft_path t) h acc) w1)"

text \<open>\<^verbatim>\<open>shape = shape or (None,)\<close>: an omitted or empty shape becomes \<^verbatim>\<open>(None,)\<close>.\<close>

definition default_shape :: "int option list option \<Rightarrow> int option list" where
  "default_shape s = (case s of None \<Rightarrow> [None] | Some [] \<Rightarrow> [None] | Some sh \<Rightarrow> sh)"

text \<open>The branch of the constructor that attaches to an existing dataset.\<close>

definition init_open ::
  "('i, 's, 'j, 'h) ext \<Rightarrow> string \<Rightarrow> string \<Rightarrow> string \<Rightarrow> 'j world \<Rightarrow>
   (exn + ('s, 'h) dataset) \<times> 'j world" where
  "init_open x u md pth w =
     (case fs_map_get_meta pth w of
        Inl e \<Rightarrow> (Inl e, w)
      | Inr (msh, mj) \<Rightarrow>
          (case deserialize x mj of
             Inl e \<Rightarrow> (Inl e, w)
           | Inr sch \<Rightarrow>
               (case flatten x sch of
                  Inl e \<Rightarrow> (Inl e, w)
                | Inr fts \<Rightarrow>
                    (case open_storage_tensors x pth md msh fts [] w of
                       (Inl e, w') \<Rightarrow> (Inl e, w')
                     | (Inr ts, w') \<Rightarrow>
                         (Inr \<lparr>url = u, mode = md, path = pth, shape = msh, schema = sch,
                               flat_tensors = fts, tensors = ts\<rparr>, w')))))"

text \<open>The body of the \<^verbatim>\<open>try\<close> block of the constructor.\<close>

definition init_create_body ::
  "('i, 's, 'j, 'h) ext \<Rightarrow> string \<Rightarrow> string \<Rightarrow> string \<Rightarrow> int option list \<Rightarrow> 'i \<Rightarrow>
   'j world \<Rightarrow> (exn + ('s, 'h) dataset) \<times> 'j world" where
  "init_create_body x u md pth sh sch_in w =
     (case featurify x sch_in of
        Inl e \<Rightarrow> (Inl e, w)
      | Inr sch \<Rightarrow>
          (case serialize x sch of
             Inl e \<Rightarrow> (Inl e, w)
           | Inr j \<Rightarrow>
               (let w1 = fs_map_set_meta pth sh j 1 w in
                case flatten x sch of
                  Inl e \<Rightarrow> (Inl e, w1)
                | Inr fts \<Rightarrow>
                    (case generate_storage_tensors x pth md sh fts [] w1 of
                       (Inl e, w2) \<Rightarrow> (Inl e, w2)
                     | (Inr ts, w2) \<Rightarrow>
                         (Inr \<lparr>url = u, mode = md, path = pth, shape = sh, schema = sch,
                               flat_tensors = fts, tensors = ts\<rparr>, w2)))))"

text \<open>The \<^verbatim>\<open>try\<close> block with its handler: remove the tree, raise the same exception.\<close>

definition init_create ::
  "('i, 's, 'j, 'h) ext \<Rightarrow> string \<Rightarrow> string \<Rightarrow> string \<Rightarrow> int option list \<Rightarrow> 'i \<Rightarrow>
   'j world \<Rightarrow> (exn + ('s, 'h) dataset) \<times> 'j world" where
  "init_create x u md pth sh sch_in w =
     (case init_create_body x u md pth sh sch_in w of
        (Inl e, w') \<Rightarrow> (Inl e, fs_rm pth w')
      | (Inr ds, w') \<Rightarrow> (Inr ds, w'))"

text \<open>
  \<^verbatim>\<open>Dataset.__init__\<close>. The mode is \<^verbatim>\<open>None\<close> or a string. The path of the
  dataset is what \<^verbatim>\<open>get_fs_and_path\<close> makes of the url (the url itself when the
  caller passes a file system), and the file system is that of the world. The assignment
  \<^verbatim>\<open>mode = "r"\<close> under \<^verbatim>\<open>safe_mode\<close> is to the local variable, here \<open>local_mode\<close>;
  \<^verbatim>\<open>self.mode\<close> was set before it and is what the handles are opened with.
\<close>

definition Dataset_init ::
  "('i, 's, 'j, 'h) ext \<Rightarrow> string \<Rightarrow> string option \<Rightarrow> bool \<Rightarrow> int option list option \<Rightarrow> 'i \<Rightarrow>
   'j world \<Rightarrow> (exn + ('s, 'h) dataset) \<times> 'j world" where
  "Dataset_init x u mode_arg safe_mode shape_arg sch_in w =
     (let sh = default_shape shape_arg in
      if length sh \<noteq> 1 then (Inl AssertionError, w)
      else
        (case mode_arg of
           None \<Rightarrow> (Inl AssertionError, w)
         | Some md \<Rightarrow>
             (let pth = get_fs_and_path x u in
              case check_and_prepare_dir pth md w of
                (Inl e, w1) \<Rightarrow> (Inl e, w1)
              | (Inr needcreate, w1) \<Rightarrow>
                  (let local_mode = (if safe_mode \<and> \<not> needcreate then ''r'' else md) in
                   if \<not> needcreate then init_open x u md pth w1
                   else init_create x u md pth sh sch_in w1))))"

section \<open>Selectors and views\<close>

text \<open>
  A range term is an integer position or a \<^verbatim>\<open>slice(start, stop, step)\<close>; a selector is
  one term or a sequence of terms, each a string or a range term. What a
  \<^verbatim>\<open>TensorView\<close> or a handle receives as index is one range term or a list of them.
\<close>

datatype sl = Index int | Slice "int option" "int option" "int option"

datatype selterm = Str string | Rng sl

datatype selector = Single selterm | Seq "selterm list"

datatype tkey = One sl | Many "sl list"

text \<open>
  What \<^verbatim>\<open>__getitem__\<close> returns: a \<^verbatim>\<open>DatasetView(num_samples, offset)\<close>, a
  \<^verbatim>\<open>TensorView(subpath, slice_)\<close>, or a dictionary whose values are tensor views and
  dictionaries. Every view also refers to the dataset it was taken from.
\<close>

datatype tdict = TensorView string tkey | Dict "(string \<times> tdict) list"

datatype ('n, 'o) item = DatasetView 'n 'o | Fields tdict

text \<open>
  \<^verbatim>\<open>if not isinstance(slice_, abc.Iterable) or isinstance(slice_, str): slice_ = [slice_]\<close>
  followed by \<^verbatim>\<open>list(slice_)\<close>.
\<close>

definition listify :: "selector \<Rightarrow> selterm list" where
  "listify s = (case s of Single t \<Rightarrow> [t] | Seq ts \<Rightarrow> ts)"

text \<open>\<^verbatim>\<open>self.shape[0]\<close>.\<close>

definition shape0 :: "int option list \<Rightarrow> exn + int option" where
  "shape0 sh = (case sh of [] \<Rightarrow> Inl IndexError | n # _ \<Rightarrow> Inr n)"

text \<open>
  \<^verbatim>\<open>slice_ = slice_ if slice_ else slice(0, self.shape[0])\<close>: \<^verbatim>\<open>None\<close> and the integer
  \<^verbatim>\<open>0\<close> are false, every other integer and every slice object is true.
\<close>

definition slice_or_default :: "sl option \<Rightarrow> int option list \<Rightarrow> exn + sl" where
  "slice_or_default s sh =
     (case s of
        None \<Rightarrow> map_sum id (\<lambda>n. Slice (Some 0) n None) (shape0 sh)
      | Some (Index i) \<Rightarrow>
          (if i = 0 then map_sum id (\<lambda>n. Slice (Some 0) n None) (shape0 sh)
           else Inr (Index i))
      | Some (Slice a b c) \<Rightarrow> Inr (Slice a b c))"

text \<open>
  The walk of \<^verbatim>\<open>_get_dictionary\<close> along \<^verbatim>\<open>split_key\<close>: every segment but the last is
  looked up in the current dictionary, and created as an empty dictionary when missing;
  the last segment is assigned the view. The view is passed as \<open>leaf\<close> with the outcome
  of the statement that computes its slice, which runs between the walk and the
  assignment. When the walk reaches a tensor view instead of a dictionary, the next
  \<^verbatim>\<open>cur.keys()\<close> fails; when it ends on one, the assignment is that view's own
  \<^verbatim>\<open>__setitem__\<close>, taken to fail.
\<close>

fun dict_put ::
  "string list \<Rightarrow> exn + tdict \<Rightarrow> (string \<times> tdict) list \<Rightarrow> exn + (string \<times> tdict) list" where
  "dict_put [] leaf d = Inl IndexError"
| "dict_put [k] leaf d =
     (case leaf of Inl e \<Rightarrow> Inl e | Inr v \<Rightarrow> Inr (AList.update k v d))"
| "dict_put (k # k' # ks) leaf d =
     (case map_of d k of
        None \<Rightarrow>
          (case dict_put (k' # ks) leaf [] of
             Inl e \<Rightarrow> Inl e
           | Inr sub \<Rightarrow> Inr (d @ [(k, Dict sub)]))
      | Some (Dict sub) \<Rightarrow>
          (case dict_put (k' # ks) leaf sub of
             Inl e \<Rightarrow> Inl e
           | Inr sub' \<Rightarrow> Inr (AList.update k (Dict sub') d))
      | Some (TensorView p s) \<Rightarrow>
          (if ks = [] then
             (case leaf of Inl e \<Rightarrow> Inl e
              | Inr v \<Rightarrow> Inl (ExternalError ''TensorView.__setitem__''))
           else Inl AttributeError))"

text \<open>The loop of \<^verbatim>\<open>_get_dictionary\<close> over \<^verbatim>\<open>self._tensors.keys()\<close>.\<close>

fun get_dictionary_loop ::
  "string \<Rightarrow> int option list \<Rightarrow> string list \<Rightarrow> sl option \<Rightarrow> (string \<times> tdict) list \<Rightarrow>
   exn + (string \<times> tdict) list" where
  "get_dictionary_loop sub sh [] slc d = Inr d"
| "get_dictionary_loop sub sh (key # keys) slc d =
     (if startswith key sub then
        (let suffix_key = drop (length sub) key;
             split_key = split_on CHR ''/'' suffix_key;
             slice' = slice_or_default slc sh
         in case dict_put split_key (map_sum id (\<lambda>s. TensorView key (One s)) slice') d of
              Inl e \<Rightarrow> Inl e
            | Inr d' \<Rightarrow>
                get_dictionary_loop sub sh keys
                  (case slice' of Inl e \<Rightarrow> slc | Inr s \<Rightarrow> Some s) d')
      else get_dictionary_loop sub sh keys slc d)"

text \<open>\<^verbatim>\<open>Dataset._get_dictionary(subpath, slice_=None)\<close>.\<close>

definition get_dictionary ::
  "('s, 'h) dataset \<Rightarrow> string \<Rightarrow> sl option \<Rightarrow> exn + (string \<times> tdict) list" where
  "get_dictionary ds subpath slc =
     (let sub = (if endswith subpath ''/'' then subpath else subpath @ ''/'') in
      case get_dictionary_loop sub (shape ds) (map fst (tensors ds)) slc [] of
        Inl e \<Rightarrow> Inl e
      | Inr d \<Rightarrow>
          (if length d = 0 then Inl (KeyError (''Key '' @ sub @ '' was not found in dataset''))
           else Inr d))"

text \<open>
  \<^verbatim>\<open>Dataset.__getitem__\<close>. The helpers \<^verbatim>\<open>slice_split\<close> and
  \<^verbatim>\<open>slice_extract_info\<close> of \<^verbatim>\<open>hub.api.dataset_utils\<close> are parameters.
\<close>

definition getitem ::
  "(selterm list \<Rightarrow> exn + string \<times> sl list) \<Rightarrow> (sl \<Rightarrow> int option \<Rightarrow> exn + 'n \<times> 'o) \<Rightarrow>
   ('s, 'h) dataset \<Rightarrow> selector \<Rightarrow> exn + ('n, 'o) item" where
  "getitem slice_split slice_extract_info ds sel =
     (case slice_split (listify sel) of
        Inl e \<Rightarrow> Inl e
      | Inr (subpath, slice_list) \<Rightarrow>
          (if subpath = [] then
             (if length slice_list > 1 then
                Inl (ValueError ''Can't slice a dataset with multiple slices without subpath'')
              else
                (case slice_list of
                   [] \<Rightarrow> Inl IndexError
                 | s # _ \<Rightarrow>
                     (case shape0 (shape ds) of
                        Inl e \<Rightarrow> Inl e
                      | Inr n \<Rightarrow>
                          (case slice_extract_info s n of
                             Inl e \<Rightarrow> Inl e
                           | Inr (num, ofs) \<Rightarrow> Inr (DatasetView num ofs)))))
           else if slice_list = [] then
             (if subpath \<in> set (map fst (tensors ds)) then
                (case shape0 (shape ds) of
                   Inl e \<Rightarrow> Inl e
                 | Inr n \<Rightarrow> Inr (Fields (TensorView subpath (One (Slice (Some 0) n None)))))
              else map_sum id (\<lambda>d. Fields (Dict d)) (get_dictionary ds subpath None))
           else
             (case shape0 (shape ds) of
                Inl e \<Rightarrow> Inl e
              | Inr n \<Rightarrow>
                  (case slice_extract_info (hd slice_list) n of
                     Inl e \<Rightarrow> Inl e
                   | Inr (num, ofs) \<Rightarrow>
                       (if subpath \<in> set (map fst (tensors ds)) then
                          Inr (Fields (TensorView subpath (Many slice_list)))
                        else if length slice_list > 1 then
                          Inl (ValueError ''You can't slice a dictionary of Tensors'')
                        else
                          map_sum id (\<lambda>d. Fields (Dict d))
                            (get_dictionary ds subpath (Some (hd slice_list))))))))"

text \<open>
  \<^verbatim>\<open>Dataset.__setitem__\<close>. The handle's own \<^verbatim>\<open>__setitem__\<close> is the parameter
  \<open>tensor_setitem\<close>; \<^verbatim>\<open>[:]\<close> passes it \<^verbatim>\<open>slice(None, None, None)\<close>.
\<close>

definition setitem ::
  "(selterm list \<Rightarrow> exn + string \<times> sl list) \<Rightarrow>
   ('h \<Rightarrow> tkey \<Rightarrow> 'v \<Rightarrow> 'j files \<Rightarrow> exn option \<times> 'h \<times> 'j files) \<Rightarrow>
   ('s, 'h) dataset \<Rightarrow> selector \<Rightarrow> 'v \<Rightarrow> 'j world \<Rightarrow>
   exn option \<times> ('s, 'h) dataset \<times> 'j world" where
  "setitem slice_split tensor_setitem ds sel v w =
     (case slice_split (listify sel) of
        Inl e \<Rightarrow> (Some e, ds, w)
      | Inr (subpath, slice_list) \<Rightarrow>
          (if subpath = [] then
             (Some (ValueError ''Can't assign to dataset sliced without subpath''), ds, w)
           else
             (case map_of (tensors ds) subpath of
                None \<Rightarrow> (Some (KeyError subpath), ds, w)
              | Some h \<Rightarrow>
                  (case tensor_setitem h
                          (if slice_list = [] then One (Slice None None None)
                           else Many slice_list) v (files w) of
                     (r, h', fs') \<Rightarrow>
                       (r, ds\<lparr>tensors := AList.update subpath h' (tensors ds)\<rparr>,
                        w\<lparr>files := fs', calls := calls w @ [CallTensorSetitem subpath]\<rparr>)))))"

section \<open>Commit and scoped use\<close>

text \<open>The loop of \<^verbatim>\<open>commit\<close> over \<^verbatim>\<open>self._tensors.values()\<close>; an exception ends it.\<close>

fun commit_loop ::
  "('i, 's, 'j, 'h) ext \<Rightarrow> (string \<times> 'h) list \<Rightarrow> 'j world \<Rightarrow>
   exn option \<times> (string \<times> 'h) list \<times> 'j world" where
  "commit_loop x [] w = (None, [], w)"
| "commit_loop x (kh # ts) w =
     (case tensor_commit x (snd kh) (files w) of
        (r, h', fs') \<Rightarrow>
          (let w' = w\<lparr>files := fs', calls := calls w @ [CallTensorCommit (fst kh)]\<rparr> in
           case r of
             Some e \<Rightarrow> (Some e, (fst kh, h') # ts, w')
           | None \<Rightarrow>
               (case commit_loop x ts w' of
                  (r', ts', w'') \<Rightarrow> (r', (fst kh, h') # ts', w''))))"

definition commit ::
  "('i, 's, 'j, 'h) ext \<Rightarrow> ('s, 'h) dataset \<Rightarrow> 'j world \<Rightarrow>
   exn option \<times> ('s, 'h) dataset \<times> 'j world" where
  "commit x ds w =
     (case commit_loop x (tensors ds) (w\<lparr>calls := calls w @ [CallCommit]\<rparr>) of
        (r, ts, w') \<Rightarrow> (r, ds\<lparr>tensors := ts\<rparr>, w'))"

definition Dataset_enter :: "('s, 'h) dataset \<Rightarrow> ('s, 'h) dataset" where
  "Dataset_enter ds = ds"

text \<open>
  \<^verbatim>\<open>Dataset.__exit__(exc_type, exc_value, exc_traceback)\<close>: calls \<^verbatim>\<open>commit\<close> and
  returns \<^verbatim>\<open>None\<close> (here \<open>Inr None\<close>; \<open>Inr (Some b)\<close> would be a returned boolean).
\<close>

definition Dataset_exit ::
  "('i, 's, 'j, 'h) ext \<Rightarrow> ('s, 'h) dataset \<Rightarrow> exn option \<Rightarrow> 'j world \<Rightarrow>
   (exn + bool option) \<times> ('s, 'h) dataset \<times> 'j world" where
  "Dataset_exit x ds exc w =
     (case commit x ds w of
        (Some e, ds', w') \<Rightarrow> (Inl e, ds', w')
      | (None, ds', w') \<Rightarrow> (Inr None, ds', w'))"

text \<open>
  The \<^verbatim>\<open>with\<close> statement of the language around a body: \<^verbatim>\<open>__enter__\<close>, the body,
  \<^verbatim>\<open>__exit__\<close> with the body's exception if any; an exception of the body is
  suppressed exactly when \<^verbatim>\<open>__exit__\<close> returns a true value, and an exception of
  \<^verbatim>\<open>__exit__\<close> itself propagates. The result is \<open>Inr None\<close> after a suppressed exception.
\<close>

definition with_dataset ::
  "('i, 's, 'j, 'h) ext \<Rightarrow>
   (('s, 'h) dataset \<Rightarrow> 'j world \<Rightarrow> (exn + 'a) \<times> ('s, 'h) dataset \<times> 'j world) \<Rightarrow>
   ('s, 'h) dataset \<Rightarrow> 'j world \<Rightarrow> (exn + 'a option) \<times> ('s, 'h) dataset \<times> 'j world" where
  "with_dataset x body ds w =
     (case body (Dataset_enter ds) w of
        (rb, ds1, w1) \<Rightarrow>
          (case Dataset_exit x ds1 (case rb of Inl e \<Rightarrow> Some e | Inr a \<Rightarrow> None) w1 of
             (Inl e', ds2, w2) \<Rightarrow> (Inl e', ds2, w2)
           | (Inr ret, ds2, w2) \<Rightarrow>
               (case rb of
                  Inl e \<Rightarrow> (if ret = Some True then (Inr None, ds2, w2) else (Inl e, ds2, w2))
                | Inr a \<Rightarrow> (Inr (Some a), ds2, w2))))"

section \<open>Reading the log of calls\<close>

definition is_set_meta :: "call \<Rightarrow> bool" where
  "is_set_meta c = (case c of CallSetMeta p \<Rightarrow> True | _ \<Rightarrow> False)"

definition is_new_tensor :: "call \<Rightarrow> bool" where
  "is_new_tensor c = (case c of CallDynamicTensor k \<Rightarrow> True | _ \<Rightarrow> False)"

text \<open>
  "Written exactly once, at the end, after all field stores have been constructed", said
  of a log: one write of the descriptor, and no handle constructed after it.
\<close>

definition meta_written_at_end :: "call list \<Rightarrow> bool" where
  "meta_written_at_end cs =
     (length (filter is_set_meta cs) = 1 \<and>
      filter is_new_tensor (dropWhile (\<lambda>c. \<not> is_set_meta c) cs) = [])"

text \<open>The calls \<^verbatim>\<open>_generate_storage_tensors\<close> makes for one field descriptor.\<close>

definition store_calls :: "string \<Rightarrow> flat_tensor \<Rightarrow> call list" where
  "store_calls pth t =
     [CallMakedirs (posixpath_join (posixpath_join pth (drop 1 (ft_path t))) ''--dynamic--''),
      CallDynamicTensor (ft_path t)]"

section \<open>The helpers of the slice router\<close>

text \<open>
  Modelled from the spec: \<^verbatim>\<open>slice_split\<close> of \<^verbatim>\<open>hub/api/dataset_utils.py\<close>, which is
  not among the sources. "The router splits the sequence into (subpath: optional string,
  terms: ordered sequence of range specifiers), taking at most one leading path term";
  the examples of the spec address the field \<^verbatim>\<open>"/label"\<close> as \<^verbatim>\<open>ds["label"]\<close>, so a
  path term is made to start with the separator. A path term anywhere else is a
  malformed selector.
\<close>

fun range_terms :: "selterm list \<Rightarrow> exn + sl list" where
  "range_terms [] = Inr []"
| "range_terms (Rng s # ts) = map_sum id (\<lambda>ss. s # ss) (range_terms ts)"
| "range_terms (Str p # ts) = Inl (ValueError ''path term after the first position'')"

definition slice_split :: "selterm list \<Rightarrow> exn + string \<times> sl list" where
  "slice_split ts =
     (case ts of
        Str p # rest \<Rightarrow>
          map_sum id (\<lambda>ss. (if startswith p ''/'' then p else ''/'' @ p, ss)) (range_terms rest)
      | _ \<Rightarrow> map_sum id (\<lambda>ss. ([], ss)) (range_terms ts))"

text \<open>
  Modelled from the spec: \<^verbatim>\<open>slice_extract_info\<close> of \<^verbatim>\<open>hub/api/dataset_utils.py\<close>,
  which is not among the sources. A term is resolved "as a sample-dimension range
  against sampleShape[0]"; \<^verbatim>\<open>ds[5]\<close> is "exactly sample 5". The result is the number
  of samples and the offset; the spec names no failure of this step.
\<close>

definition slice_extract_info :: "sl \<Rightarrow> int option \<Rightarrow> exn + int \<times> int" where
  "slice_extract_info s n =
     (case s of
        Index i \<Rightarrow> Inr (1, i)
      | Slice a b c \<Rightarrow>
          (let start = (case a of None \<Rightarrow> 0 | Some i \<Rightarrow> i);
               stop = (case b of Some j \<Rightarrow> j | None \<Rightarrow> (case n of Some m \<Rightarrow> m | None \<Rightarrow> start))
           in Inr (stop - start, start)))"

section \<open>Concrete collaborators and states\<close>

text \<open>
  A set of collaborators for running the model: a schema is the list of its field
  descriptors and is its own serialized form, and a handle is the record of the
  arguments it was constructed with, so that what the dataset passed can be read off.
  The constructor fails for the field \<^verbatim>\<open>/broken\<close>, and reports for the field
  \<^verbatim>\<open>/probe\<close>, in the handle's \<open>ta_dtype\<close>, whether the dataset's descriptor was in
  storage when the handle was constructed.
\<close>

definition probe_meta :: "tensor_args \<Rightarrow> 'j files \<Rightarrow> string" where
  "probe_meta a fs =
     (if map_of fs (segs (posixpath_join (ta_root a) ''meta.json'')) = None
      then ''no descriptor yet'' else ''descriptor present'')"

definition x_rec :: "(flat_tensor list, flat_tensor list, flat_tensor list, tensor_args) ext" where
  "x_rec =
     \<lparr>get_fs_and_path = (\<lambda>u. u),
      featurify = Inr,
      serialize = Inr,
      deserialize = Inr,
      flatten = Inr,
      DynamicTensor =
        (\<lambda>a fs. if ta_key a = ''/broken'' then (Inl (ExternalError ''no space''), fs)
                else if ta_key a = ''/probe''
                then (Inr (a\<lparr>ta_dtype := Some (probe_meta a fs)\<rparr>), fs)
                else (Inr a, fs)),
      tensor_commit = (\<lambda>h fs. (None, h, fs))\<rparr>"

definition ft_label :: flat_tensor where
  "ft_label = \<lparr>ft_path = ''/label'', ft_shape = [], ft_max_shape = [],
               ft_dtype = ''int32'', ft_chunks = None\<rparr>"

definition ft_broken :: flat_tensor where
  "ft_broken = \<lparr>ft_path = ''/broken'', ft_shape = [], ft_max_shape = [],
                ft_dtype = ''int32'', ft_chunks = None\<rparr>"

definition ft_probe :: flat_tensor where
  "ft_probe = \<lparr>ft_path = ''/probe'', ft_shape = [], ft_max_shape = [],
               ft_dtype = ''int32'', ft_chunks = None\<rparr>"

definition w_absent :: "flat_tensor list world" where
  "w_absent = \<lparr>files = [], calls = []\<rparr>"

definition w_emptydir :: "flat_tensor list world" where
  "w_emptydir = \<lparr>files = [([''ds''], Dir)], calls = []\<rparr>"

definition w_stray :: "flat_tensor list world" where
  "w_stray = \<lparr>files = [([''ds''], Dir), ([''ds'', ''notes.txt''], OtherFile)], calls = []\<rparr>"

definition w_dataset :: "flat_tensor list world" where
  "w_dataset =
     \<lparr>files = [([''ds''], Dir), ([''ds'', ''meta.json''], MetaFile [Some 3] [ft_label] 1)],
      calls = []\<rparr>"

text \<open>The dataset that opening \<open>w_dataset\<close> in mode \<^verbatim>\<open>a\<close> yields with \<open>x_rec\<close>.\<close>

definition ds_label :: "(flat_tensor list, tensor_args) dataset" where
  "ds_label =
     \<lparr>url = ''ds'', mode = ''a'', path = ''ds'', shape = [Some 3], schema = [ft_label],
      flat_tensors = [ft_label],
      tensors = [(''/label'',
         \<lparr>ta_key = ''/label'', ta_dir = ''ds/label'', ta_root = ''ds'', ta_mode = ''a'',
          ta_shape = [Some 3], ta_max_shape = None, ta_dtype = None, ta_chunks = None\<rparr>)]\<rparr>"

text \<open>
  The creation of a dataset of five samples with the field \<^verbatim>\<open>/label\<close> on absent
  storage, with \<open>x_rec\<close>: the dataset and the storage it yields, and the dataset that
  opening that storage in mode \<^verbatim>\<open>r\<close> yields.
\<close>

definition ds_created :: "(flat_tensor list, tensor_args) dataset" where
  "ds_created =
     \<lparr>url = ''ds'', mode = ''w'', path = ''ds'', shape = [Some 5], schema = [ft_label],
      flat_tensors = [ft_label],
      tensors = [(''/label'',
         \<lparr>ta_key = ''/label'', ta_dir = ''ds/label'', ta_root = ''ds'', ta_mode = ''w'',
          ta_shape = [Some 5], ta_max_shape = Some [Some 5],
          ta_dtype = Some ''int32'', ta_chunks = Some None\<rparr>)]\<rparr>"

definition w_created :: "flat_tensor list world" where
  "w_created =
     \<lparr>files = [([], Dir), ([''ds''], Dir),
               ([''ds'', ''meta.json''], MetaFile [Some 5] [ft_label] 1),
               ([''ds'', ''label''], Dir), ([''ds'', ''label'', ''--dynamic--''], Dir)],
      calls = [CallMakedirs ''ds'', CallSetMeta ''ds'',
               CallMakedirs ''ds/label/--dynamic--'', CallDynamicTensor ''/label'']\<rparr>"

definition ds_reopened :: "(flat_tensor list, tensor_args) dataset" where
  "ds_reopened =
     \<lparr>url = ''ds'', mode = ''r'', path = ''ds'', shape = [Some 5], schema = [ft_label],
      flat_tensors = [ft_label],
      tensors = [(''/label'',
         \<lparr>ta_key = ''/label'', ta_dir = ''ds/label'', ta_root = ''ds'', ta_mode = ''r'',
          ta_shape = [Some 5], ta_max_shape = None, ta_dtype = None, ta_chunks = None\<rparr>)]\<rparr>"

text \<open>A dataset of ten samples with the fields \<^verbatim>\<open>/group/a\<close>, \<^verbatim>\<open>/group/b\<close> and \<^verbatim>\<open>/label\<close>.\<close>

definition ds_group :: "(unit, tkey list) dataset" where
  "ds_group =
     \<lparr>url = ''ds'', mode = ''a'', path = ''ds'', shape = [Some 10], schema = (),
      flat_tensors = [], tensors = [(''/group/a'', []), (''/group/b'', []), (''/label'', [])]\<rparr>"

text \<open>A handle that is the list of the indices assigned to it so far.\<close>

definition log_setitem ::
  "tkey list \<Rightarrow> tkey \<Rightarrow> unit \<Rightarrow> 'j files \<Rightarrow> exn option \<times> tkey list \<times> 'j files" where
  "log_setitem h k v fs = (None, h @ [k], fs)"

section \<open>Paths and the file system: basic facts\<close>

lemma split_on_nonempty: "split_on c s \<noteq> []"
  by (induction s) (auto split: list.splits)

lemma split_on_append: "split_on c (a @ c # b) = split_on c a @ split_on c b"
proof (induction a)
  case Nil
  show ?case by simp
next
  case (Cons x a)
  obtain u us where u: "split_on c a = u # us"
    using split_on_nonempty [of c a] by (cases "split_on c a") auto
  show ?case using Cons u by simp
qed

lemma segs_append: "segs (a @ CHR ''/'' # b) = segs a @ segs b"
  by (simp add: segs_def split_on_append)

lemma segs_Nil: "segs [] = []"
  by (simp add: segs_def)

lemma endswith_slashD: "endswith a ''/'' \<Longrightarrow> \<exists>q. a = q @ ''/''"
  unfolding endswith_def
  by (metis append_take_drop_id)

lemma segs_join: "\<not> startswith b ''/'' \<Longrightarrow> segs (posixpath_join a b) = segs a @ segs b"
proof -
  assume nb: "\<not> startswith b ''/''"
  show ?thesis
  proof (cases "a = []")
    case True
    then show ?thesis using nb by (simp add: posixpath_join_def segs_Nil)
  next
    case False
    show ?thesis
    proof (cases "endswith a ''/''")
      case True
      then obtain q where q: "a = q @ ''/''" using endswith_slashD by blast
      have "segs (a @ b) = segs q @ segs b" using q by (simp add: segs_append)
      moreover have "segs a = segs q" using q by (simp add: segs_append segs_Nil)
      ultimately show ?thesis using nb True by (simp add: posixpath_join_def)
    next
      case e: False
      then show ?thesis using nb False by (simp add: posixpath_join_def segs_append)
    qed
  qed
qed

lemma segs_meta: "segs (posixpath_join p ''meta.json'') = segs p @ [''meta.json'']"
proof -
  have "\<not> startswith ''meta.json'' ''/''" by (simp add: startswith_def)
  moreover have "segs ''meta.json'' = [''meta.json'']" by (simp add: segs_def)
  ultimately show ?thesis using segs_join by metis
qed

lemma map_of_rm_tree: "map_of (rm_tree sp fs) k = (if prefix sp k then None else map_of fs k)"
  unfolding rm_tree_def by (induction fs) auto

lemma map_of_add_dir: "map_of (add_dir fs d) k = (case map_of fs k of Some v \<Rightarrow> Some v | None \<Rightarrow> if k = d then Some Dir else None)"
  by (cases "map_of fs d") (auto simp: add_dir_def map_add_def split: option.splits)

lemma map_of_add_dirs:
  "map_of (foldl add_dir fs ds) k =
     (case map_of fs k of Some v \<Rightarrow> Some v | None \<Rightarrow> if k \<in> set ds then Some Dir else None)"
  by (induction ds arbitrary: fs) (auto simp: map_of_add_dir split: option.splits)

lemma fs_exists_rm: "\<not> fs_exists (fs_rm p w) p"
  by (simp add: fs_exists_def fs_rm_def map_of_rm_tree)

lemma fs_makedirs_fresh:
  "\<not> fs_exists w p \<Longrightarrow>
   fs_makedirs p w =
     (None, w\<lparr>calls := calls w @ [CallMakedirs p],
              files := foldl add_dir (files w) (prefixes (segs p))\<rparr>)"
  by (simp add: fs_makedirs_def Let_def)

lemma listdir_empty_iff:
  "get_file_count w p = 0 \<longleftrightarrow> (\<forall>k v. (k, v) \<in> set (files w) \<longrightarrow> k = [] \<or> butlast k \<noteq> segs p)"
  by (auto simp: get_file_count_def listdir_def filter_empty_conv)

text \<open>
  Claim C1. The lifecycle resolution of the constructor follows the transition table,
  its rows read from the top (the read-mode row comes before the rows on the
  directory): with a descriptor and a mode containing \<^verbatim>\<open>w\<close> the tree is removed, the
  directory is made again, empty, and the dataset is created; with a descriptor and no
  \<^verbatim>\<open>w\<close> the dataset is opened and storage is untouched; without a descriptor a mode
  containing \<^verbatim>\<open>r\<close> fails with \<^verbatim>\<open>HubDatasetNotFoundException\<close>; otherwise an absent
  directory is made and the dataset created, a non-empty directory fails with
  \<^verbatim>\<open>NotHubDatasetToOverwriteException\<close> under a mode containing \<^verbatim>\<open>w\<close> and with
  \<^verbatim>\<open>NotHubDatasetToAppendException\<close> under any other, and an empty directory is used
  as it is for a creation.
\<close>

theorem lifecycle_table:
  fixes w :: "'j world"
  shows
  "(fs_exists w (posixpath_join pth ''meta.json'') \<and> CHR ''w'' \<in> set md \<longrightarrow>
      (\<exists>w'. check_and_prepare_dir pth md w = (Inr True, w') \<and>
            calls w' = calls w @ [CallRm pth, CallMakedirs pth] \<and>
            map_of (files w') (segs pth) = Some Dir \<and>
            (\<forall>k. strict_prefix (segs pth) k \<longrightarrow> map_of (files w') k = None) \<and>
            get_file_count w' pth = 0 \<and>
            \<not> fs_exists w' (posixpath_join pth ''meta.json'') \<and>
            (\<forall>k v. \<not> prefix (segs pth) k \<and> map_of (files w) k = Some v \<longrightarrow>
                   map_of (files w') k = Some v))) \<and>
   (fs_exists w (posixpath_join pth ''meta.json'') \<and> CHR ''w'' \<notin> set md \<longrightarrow>
      check_and_prepare_dir pth md w = (Inr False, w)) \<and>
   (\<not> fs_exists w (posixpath_join pth ''meta.json'') \<and> CHR ''r'' \<in> set md \<longrightarrow>
      check_and_prepare_dir pth md w = (Inl HubDatasetNotFoundException, w)) \<and>
   (\<not> fs_exists w (posixpath_join pth ''meta.json'') \<and> CHR ''r'' \<notin> set md \<and>
    \<not> fs_exists w pth \<longrightarrow>
      (\<exists>w'. check_and_prepare_dir pth md w = (Inr True, w') \<and>
            calls w' = calls w @ [CallMakedirs pth] \<and>
            map_of (files w') (segs pth) = Some Dir \<and>
            (\<forall>k v. map_of (files w) k = Some v \<longrightarrow> map_of (files w') k = Some v))) \<and>
   (\<not> fs_exists w (posixpath_join pth ''meta.json'') \<and> CHR ''r'' \<notin> set md \<and>
    fs_exists w pth \<and> get_file_count w pth > 0 \<and> CHR ''w'' \<in> set md \<longrightarrow>
      check_and_prepare_dir pth md w = (Inl NotHubDatasetToOverwriteException, w)) \<and>
   (\<not> fs_exists w (posixpath_join pth ''meta.json'') \<and> CHR ''r'' \<notin> set md \<and>
    fs_exists w pth \<and> get_file_count w pth > 0 \<and> CHR ''w'' \<notin> set md \<longrightarrow>
      check_and_prepare_dir pth md w = (Inl NotHubDatasetToAppendException, w)) \<and>
   (\<not> fs_exists w (posixpath_join pth ''meta.json'') \<and> CHR ''r'' \<notin> set md \<and>
    fs_exists w pth \<and> get_file_count w pth = 0 \<longrightarrow>
      check_and_prepare_dir pth md w = (Inr True, w))"
proof -
  let ?w1 = "fs_rm pth w"
  let ?w2 = "?w1\<lparr>calls := calls ?w1 @ [CallMakedirs pth],
                  files := foldl add_dir (files ?w1) (prefixes (segs pth))\<rparr>"
  have mk1: "fs_makedirs pth ?w1 = (None, ?w2)"
    using fs_makedirs_fresh [OF fs_exists_rm] .
  have f2: "map_of (files ?w2) k =
      (if prefix (segs pth) k then (if k = segs pth then Some Dir else None)
       else (case map_of (files w) k of Some v \<Rightarrow> Some v
             | None \<Rightarrow> if prefix k (segs pth) then Some Dir else None))" for k
    by (auto simp: map_of_add_dirs fs_rm_def map_of_rm_tree split: option.splits
             dest: prefix_order.antisym)
  have cnt: "get_file_count ?w2 pth = 0"
  proof -
    have "k = [] \<or> butlast k \<noteq> segs pth" if "(k, v) \<in> set (files ?w2)" for k v
    proof (rule ccontr)
      assume "\<not> ?thesis"
      then have k: "k \<noteq> []" "butlast k = segs pth" by auto
      then have "k = segs pth @ [last k]" by (metis append_butlast_last_id)
      then have sp: "strict_prefix (segs pth) k" by (metis strict_prefixI' )
      then have "map_of (files ?w2) k = None"
        using f2 [of k] by (auto simp: strict_prefix_def)
      then show False using that by (metis map_of_eq_None_iff fst_conv image_eqI)
    qed
    then show ?thesis unfolding listdir_empty_iff by blast
  qed
  have row1: "check_and_prepare_dir pth md w = (Inr True, ?w2)"
    if "fs_exists w (posixpath_join pth ''meta.json'')" "CHR ''w'' \<in> set md"
    using that mk1 by (simp add: check_and_prepare_dir_def)
  have p1: "calls ?w2 = calls w @ [CallRm pth, CallMakedirs pth]"
    by (simp add: fs_rm_def)
  have p2: "map_of (files ?w2) (segs pth) = Some Dir" using f2 [of "segs pth"] by simp
  have p3: "\<forall>k. strict_prefix (segs pth) k \<longrightarrow> map_of (files ?w2) k = None"
    using f2 by (auto simp: strict_prefix_def)
  have p4: "\<not> fs_exists ?w2 (posixpath_join pth ''meta.json'')"
    unfolding fs_exists_def segs_meta using f2 [of "segs pth @ [''meta.json'']"] by simp
  have p5: "\<forall>k v. \<not> prefix (segs pth) k \<and> map_of (files w) k = Some v \<longrightarrow>
                   map_of (files ?w2) k = Some v"
    using f2 by auto
  let ?w3 = "w\<lparr>calls := calls w @ [CallMakedirs pth],
               files := foldl add_dir (files w) (prefixes (segs pth))\<rparr>"
  have row4: "check_and_prepare_dir pth md w = (Inr True, ?w3)"
    if "\<not> fs_exists w (posixpath_join pth ''meta.json'')" "CHR ''r'' \<notin> set md" "\<not> fs_exists w pth"
    using that fs_makedirs_fresh [of w pth] by (simp add: check_and_prepare_dir_def)
  have q2: "map_of (files ?w3) (segs pth) = Some Dir" if "\<not> fs_exists w pth"
    using that by (simp add: map_of_add_dirs fs_exists_def)
  have q3: "\<forall>k v. map_of (files w) k = Some v \<longrightarrow> map_of (files ?w3) k = Some v"
    by (simp add: map_of_add_dirs)
  have A: "fs_exists w (posixpath_join pth ''meta.json'') \<and> CHR ''w'' \<in> set md \<longrightarrow>
      (\<exists>w'. check_and_prepare_dir pth md w = (Inr True, w') \<and>
            calls w' = calls w @ [CallRm pth, CallMakedirs pth] \<and>
            map_of (files w') (segs pth) = Some Dir \<and>
            (\<forall>k. strict_prefix (segs pth) k \<longrightarrow> map_of (files w') k = None) \<and>
            get_file_count w' pth = 0 \<and>
            \<not> fs_exists w' (posixpath_join pth ''meta.json'') \<and>
            (\<forall>k v. \<not> prefix (segs pth) k \<and> map_of (files w) k = Some v \<longrightarrow>
                   map_of (files w') k = Some v))"
    using row1 p1 p2 p3 cnt p4 p5 by blast
  have D: "\<not> fs_exists w (posixpath_join pth ''meta.json'') \<and> CHR ''r'' \<notin> set md \<and>
    \<not> fs_exists w pth \<longrightarrow>
      (\<exists>w'. check_and_prepare_dir pth md w = (Inr True, w') \<and>
            calls w' = calls w @ [CallMakedirs pth] \<and>
            map_of (files w') (segs pth) = Some Dir \<and>
            (\<forall>k v. map_of (files w) k = Some v \<longrightarrow> map_of (files w') k = Some v))"
  proof (intro impI)
    assume h: "\<not> fs_exists w (posixpath_join pth ''meta.json'') \<and> CHR ''r'' \<notin> set md \<and>
      \<not> fs_exists w pth"
    have "calls ?w3 = calls w @ [CallMakedirs pth]" by simp
    with row4 q2 q3 h show "\<exists>w'. check_and_prepare_dir pth md w = (Inr True, w') \<and>
            calls w' = calls w @ [CallMakedirs pth] \<and>
            map_of (files w') (segs pth) = Some Dir \<and>
            (\<forall>k v. map_of (files w) k = Some v \<longrightarrow> map_of (files w') k = Some v)"
      by blast
  qed
  have B: "fs_exists w (posixpath_join pth ''meta.json'') \<and> CHR ''w'' \<notin> set md \<longrightarrow>
      check_and_prepare_dir pth md w = (Inr False, w)"
    by (simp add: check_and_prepare_dir_def)
  have C: "\<not> fs_exists w (posixpath_join pth ''meta.json'') \<and> CHR ''r'' \<in> set md \<longrightarrow>
      check_and_prepare_dir pth md w = (Inl HubDatasetNotFoundException, w)"
    by (simp add: check_and_prepare_dir_def)
  have E: "\<not> fs_exists w (posixpath_join pth ''meta.json'') \<and> CHR ''r'' \<notin> set md \<and>
    fs_exists w pth \<and> get_file_count w pth > 0 \<and> CHR ''w'' \<in> set md \<longrightarrow>
      check_and_prepare_dir pth md w = (Inl NotHubDatasetToOverwriteException, w)"
    by (simp add: check_and_prepare_dir_def)
  have F: "\<not> fs_exists w (posixpath_join pth ''meta.json'') \<and> CHR ''r'' \<notin> set md \<and>
    fs_exists w pth \<and> get_file_count w pth > 0 \<and> CHR ''w'' \<notin> set md \<longrightarrow>
      check_and_prepare_dir pth md w = (Inl NotHubDatasetToAppendException, w)"
    by (simp add: check_and_prepare_dir_def)
  have G: "\<not> fs_exists w (posixpath_join pth ''meta.json'') \<and> CHR ''r'' \<notin> set md \<and>
    fs_exists w pth \<and> get_file_count w pth = 0 \<longrightarrow>
      check_and_prepare_dir pth md w = (Inr True, w)"
    by (simp add: check_and_prepare_dir_def)
  show ?thesis using A B C D E F G by blast
qed

lemmas eval_fs = fs_exists_def segs_def posixpath_join_def startswith_def endswith_def
  get_file_count_def listdir_def w_dataset_def w_stray_def w_emptydir_def w_absent_def

text \<open>The seven rows of the table at concrete states of the storage.\<close>

theorem lifecycle_table_witness:
  "(fs_exists w_dataset (posixpath_join ''ds'' ''meta.json'') \<and>
    (\<exists>w'. check_and_prepare_dir ''ds'' ''w'' w_dataset = (Inr True, w') \<and>
          calls w' = [CallRm ''ds'', CallMakedirs ''ds''] \<and>
          \<not> fs_exists w' (posixpath_join ''ds'' ''meta.json''))) \<and>
   check_and_prepare_dir ''ds'' ''a'' w_dataset = (Inr False, w_dataset) \<and>
   (\<not> fs_exists w_absent (posixpath_join ''ds'' ''meta.json'') \<and>
    check_and_prepare_dir ''ds'' ''r'' w_absent = (Inl HubDatasetNotFoundException, w_absent)) \<and>
   (\<not> fs_exists w_absent ''ds'' \<and>
    (\<exists>w'. check_and_prepare_dir ''ds'' ''a'' w_absent = (Inr True, w') \<and>
          map_of (files w') (segs ''ds'') = Some Dir)) \<and>
   (0 < get_file_count w_stray ''ds'' \<and>
    check_and_prepare_dir ''ds'' ''w'' w_stray = (Inl NotHubDatasetToOverwriteException, w_stray)) \<and>
   check_and_prepare_dir ''ds'' ''a'' w_stray = (Inl NotHubDatasetToAppendException, w_stray) \<and>
   (get_file_count w_emptydir ''ds'' = 0 \<and>
    check_and_prepare_dir ''ds'' ''a'' w_emptydir = (Inr True, w_emptydir))"
proof -
  have a: "fs_exists w_dataset (posixpath_join ''ds'' ''meta.json'')" by (simp add: eval_fs)
  have b: "\<not> fs_exists w_absent (posixpath_join ''ds'' ''meta.json'')" by (simp add: eval_fs)
  have c: "\<not> fs_exists w_absent ''ds''" by (simp add: eval_fs)
  have d: "\<not> fs_exists w_stray (posixpath_join ''ds'' ''meta.json'')" by (simp add: eval_fs)
  have e: "fs_exists w_stray ''ds''" by (simp add: eval_fs)
  have f: "0 < get_file_count w_stray ''ds''" by (simp add: eval_fs)
  have g: "\<not> fs_exists w_emptydir (posixpath_join ''ds'' ''meta.json'')" by (simp add: eval_fs)
  have h: "fs_exists w_emptydir ''ds''" by (simp add: eval_fs)
  have i: "get_file_count w_emptydir ''ds'' = 0" by (simp add: eval_fs)
  have r1: "\<exists>w'. check_and_prepare_dir ''ds'' ''w'' w_dataset = (Inr True, w') \<and>
          calls w' = [CallRm ''ds'', CallMakedirs ''ds''] \<and>
          \<not> fs_exists w' (posixpath_join ''ds'' ''meta.json'')"
    using lifecycle_table [of w_dataset "''ds''" "''w''"] a by (auto simp: w_dataset_def)
  have r2: "check_and_prepare_dir ''ds'' ''a'' w_dataset = (Inr False, w_dataset)"
    using lifecycle_table [of w_dataset "''ds''" "''a''"] a by simp
  have r3: "check_and_prepare_dir ''ds'' ''r'' w_absent = (Inl HubDatasetNotFoundException, w_absent)"
    using lifecycle_table [of w_absent "''ds''" "''r''"] b by simp
  have r4: "\<exists>w'. check_and_prepare_dir ''ds'' ''a'' w_absent = (Inr True, w') \<and>
          map_of (files w') (segs ''ds'') = Some Dir"
    using lifecycle_table [of w_absent "''ds''" "''a''"] b c by auto
  have r5: "check_and_prepare_dir ''ds'' ''w'' w_stray = (Inl NotHubDatasetToOverwriteException, w_stray)"
    using lifecycle_table [of w_stray "''ds''" "''w''"] d e f by simp
  have r6: "check_and_prepare_dir ''ds'' ''a'' w_stray = (Inl NotHubDatasetToAppendException, w_stray)"
    using lifecycle_table [of w_stray "''ds''" "''a''"] d e f by simp
  have r7: "check_and_prepare_dir ''ds'' ''a'' w_emptydir = (Inr True, w_emptydir)"
    using lifecycle_table [of w_emptydir "''ds''" "''a''"] g h i by simp
  show ?thesis using a b c f i r1 r2 r3 r4 r5 r6 r7 by blast
qed

section \<open>The constructor: safe mode and the sample shape\<close>

lemmas eval_init = Dataset_init_def default_shape_def check_and_prepare_dir_def init_open_def
  init_create_def init_create_body_def fs_map_get_meta_def fs_map_set_meta_def new_tensor_def
  fs_makedirs_def fs_rm_def rm_tree_def add_dir_def x_rec_def probe_meta_def
  ft_label_def ft_broken_def ft_probe_def w_dataset_def w_absent_def Let_def

text \<open>
  Claim C2 (the code departs from it). Under \<^verbatim>\<open>safe_mode\<close> an existing dataset
  should be opened in mode \<^verbatim>\<open>r\<close>, whatever mode was asked for. The constructor run on
  an existing dataset with mode \<^verbatim>\<open>a\<close> and \<^verbatim>\<open>safe_mode=True\<close>: the dataset keeps
  mode \<^verbatim>\<open>a\<close> and its handle was constructed with mode \<^verbatim>\<open>a\<close>.
\<close>

theorem safe_mode_open_keeps_mode:
  "Dataset_init x_rec ''ds'' (Some ''a'') True None [] w_dataset =
     (Inr ds_label, w_dataset\<lparr>calls := [CallDynamicTensor ''/label'']\<rparr>) \<and>
   mode ds_label = ''a'' \<and> map (\<lambda>kh. ta_mode (snd kh)) (tensors ds_label) = [''a'']"
  by (simp add: eval_init eval_fs ds_label_def)

text \<open>The flag has no effect on the constructor at all.\<close>

lemma safe_mode_ignored:
  "Dataset_init x u m True sh s w = Dataset_init x u m False sh s w"
  by (auto simp: Dataset_init_def Let_def split: option.splits prod.splits sum.splits)

text \<open>
  Claim C9. An omitted or empty sample shape becomes \<^verbatim>\<open>(None,)\<close>, any other is kept;
  when the shape so obtained has not exactly one entry the constructor fails its
  assertion and storage is as it was; so a constructor that returns a dataset was given
  a shape of one entry.
\<close>

theorem sample_shape_rank_one:
  "default_shape None = [None] \<and> default_shape (Some []) = [None] \<and>
   (sh \<noteq> [] \<longrightarrow> default_shape (Some sh) = sh) \<and>
   (length (default_shape sh_arg) \<noteq> 1 \<longrightarrow>
      Dataset_init x u m safe sh_arg s w = (Inl AssertionError, w)) \<and>
   (\<forall>ds w'. Dataset_init x u m safe sh_arg s w = (Inr ds, w') \<longrightarrow>
      length (default_shape sh_arg) = 1)"
  by (auto simp: default_shape_def Dataset_init_def Let_def split: list.splits)

text \<open>A shape of two entries, on absent and on existing storage; a shape of one entry.\<close>

theorem sample_shape_rank_one_witness:
  "length (default_shape (Some [Some 2, Some 3])) \<noteq> 1 \<and>
   Dataset_init x_rec ''ds'' (Some ''w'') False (Some [Some 2, Some 3]) [ft_label] w_absent =
     (Inl AssertionError, w_absent) \<and>
   Dataset_init x_rec ''ds'' (Some ''w'') False (Some [Some 2, Some 3]) [ft_label] w_dataset =
     (Inl AssertionError, w_dataset) \<and>
   (\<exists>ds w'. Dataset_init x_rec ''ds'' (Some ''w'') False (Some [Some 2]) [ft_label] w_absent = (Inr ds, w')) \<and>
   length (default_shape (Some [Some 2])) = 1"
proof -
  have a: "length (default_shape (Some [Some 2, Some 3])) \<noteq> 1" by (simp add: default_shape_def)
  have b: "\<exists>ds w'. Dataset_init x_rec ''ds'' (Some ''w'') False (Some [Some 2]) [ft_label] w_absent = (Inr ds, w')"
    by (simp add: eval_init eval_fs)
  show ?thesis
    using a b
      sample_shape_rank_one [of "[]" "Some [Some 2, Some 3]" x_rec "''ds''" "Some ''w''" False "[ft_label]" w_absent]
      sample_shape_rank_one [of "[]" "Some [Some 2, Some 3]" x_rec "''ds''" "Some ''w''" False "[ft_label]" w_dataset]
      sample_shape_rank_one [of "[]" "Some [Some 2]" x_rec "''ds''" "Some ''w''" False "[ft_label]" w_absent]
    by blast
qed

section \<open>Assignment\<close>

text \<open>
  Claim C6. An assignment whose selector has no subpath fails with the
  \<^verbatim>\<open>ValueError\<close> of \<^verbatim>\<open>__setitem__\<close>, whatever its range terms, and changes neither
  the dataset nor storage; with the path of a registered field and no range terms the
  value is assigned to the handle at \<^verbatim>\<open>[:]\<close>; with range terms it is assigned at
  exactly the list of those terms.
\<close>

theorem setitem_resolution:
  "(ss (listify sel) = Inr ([], terms) \<longrightarrow>
      setitem ss tset ds sel v w =
        (Some (ValueError ''Can't assign to dataset sliced without subpath''), ds, w)) \<and>
   (ss (listify sel) = Inr (sub, []) \<and> sub \<noteq> [] \<and> map_of (tensors ds) sub = Some h \<longrightarrow>
      setitem ss tset ds sel v w =
        (case tset h (One (Slice None None None)) v (files w) of
           (r, h', fs') \<Rightarrow>
             (r, ds\<lparr>tensors := AList.update sub h' (tensors ds)\<rparr>,
              w\<lparr>files := fs', calls := calls w @ [CallTensorSetitem sub]\<rparr>))) \<and>
   (ss (listify sel) = Inr (sub, terms) \<and> sub \<noteq> [] \<and> terms \<noteq> [] \<and>
    map_of (tensors ds) sub = Some h \<longrightarrow>
      setitem ss tset ds sel v w =
        (case tset h (Many terms) v (files w) of
           (r, h', fs') \<Rightarrow>
             (r, ds\<lparr>tensors := AList.update sub h' (tensors ds)\<rparr>,
              w\<lparr>files := fs', calls := calls w @ [CallTensorSetitem sub]\<rparr>)))"
  by (simp add: setitem_def)

lemmas eval_sel = listify_def slice_split_def startswith_def ds_group_def log_setitem_def
  w_absent_def

text \<open>The assignments \<^verbatim>\<open>ds[1, 2] = v\<close>, \<^verbatim>\<open>ds["label"] = v\<close> and \<^verbatim>\<open>ds["label", 3] = v\<close>.\<close>

theorem setitem_resolution_witness:
  "slice_split (listify (Seq [Rng (Index 1), Rng (Index 2)])) = Inr ([], [Index 1, Index 2]) \<and>
   setitem slice_split log_setitem ds_group (Seq [Rng (Index 1), Rng (Index 2)]) () w_absent =
     (Some (ValueError ''Can't assign to dataset sliced without subpath''), ds_group, w_absent) \<and>
   slice_split (listify (Single (Str ''label''))) = Inr (''/label'', []) \<and>
   map_of (tensors ds_group) ''/label'' = Some [] \<and>
   setitem slice_split log_setitem ds_group (Single (Str ''label'')) () w_absent =
     (None,
      ds_group\<lparr>tensors := [(''/group/a'', []), (''/group/b'', []),
                            (''/label'', [One (Slice None None None)])]\<rparr>,
      w_absent\<lparr>calls := [CallTensorSetitem ''/label'']\<rparr>) \<and>
   slice_split (listify (Seq [Str ''label'', Rng (Index 3)])) = Inr (''/label'', [Index 3]) \<and>
   setitem slice_split log_setitem ds_group (Seq [Str ''label'', Rng (Index 3)]) () w_absent =
     (None,
      ds_group\<lparr>tensors := [(''/group/a'', []), (''/group/b'', []),
                            (''/label'', [Many [Index 3]])]\<rparr>,
      w_absent\<lparr>calls := [CallTensorSetitem ''/label'']\<rparr>)"
proof -
  have a: "slice_split (listify (Seq [Rng (Index 1), Rng (Index 2)])) = Inr ([], [Index 1, Index 2])"
    by (simp add: eval_sel)
  have b: "slice_split (listify (Single (Str ''label''))) = Inr (''/label'', [])"
    by (simp add: eval_sel)
  have c: "slice_split (listify (Seq [Str ''label'', Rng (Index 3)])) = Inr (''/label'', [Index 3])"
    by (simp add: eval_sel)
  have d: "map_of (tensors ds_group) ''/label'' = Some []" by (simp add: ds_group_def)
  have r1: "setitem slice_split log_setitem ds_group (Seq [Rng (Index 1), Rng (Index 2)]) () w_absent =
     (Some (ValueError ''Can't assign to dataset sliced without subpath''), ds_group, w_absent)"
    using setitem_resolution [of slice_split "Seq [Rng (Index 1), Rng (Index 2)]" "[Index 1, Index 2]"
        log_setitem ds_group "()" w_absent] a by simp
  have r2: "setitem slice_split log_setitem ds_group (Single (Str ''label'')) () w_absent =
     (None,
      ds_group\<lparr>tensors := [(''/group/a'', []), (''/group/b'', []),
                            (''/label'', [One (Slice None None None)])]\<rparr>,
      w_absent\<lparr>calls := [CallTensorSetitem ''/label'']\<rparr>)"
    using setitem_resolution [of slice_split "Single (Str ''label'')" "[]"
        log_setitem ds_group "()" w_absent "''/label''" "[]"] b d
    by (simp add: log_setitem_def ds_group_def w_absent_def)
  have r3: "setitem slice_split log_setitem ds_group (Seq [Str ''label'', Rng (Index 3)]) () w_absent =
     (None,
      ds_group\<lparr>tensors := [(''/group/a'', []), (''/group/b'', []),
                            (''/label'', [Many [Index 3]])]\<rparr>,
      w_absent\<lparr>calls := [CallTensorSetitem ''/label'']\<rparr>)"
    using setitem_resolution [of slice_split "Seq [Str ''label'', Rng (Index 3)]" "[Index 3]"
        log_setitem ds_group "()" w_absent "''/label''" "[]"] c d
    by (simp add: log_setitem_def ds_group_def w_absent_def)
  show ?thesis using a b c d r1 r2 r3 by blast
qed

text \<open>
  Claim C10. An assignment whose subpath is not the path of a registered field fails
  with the \<^verbatim>\<open>KeyError\<close> of the lookup in the field registry, not with the
  \<^verbatim>\<open>ValueError\<close> of a malformed selector; no handle is called, and the dataset and
  storage are as before.
\<close>

theorem setitem_unregistered_path:
  "ss (listify sel) = Inr (sub, terms) \<Longrightarrow> sub \<noteq> [] \<Longrightarrow> sub \<notin> fst ` set (tensors ds) \<Longrightarrow>
   setitem ss tset ds sel v w = (Some (KeyError sub), ds, w)"
proof -
  assume split: "ss (listify sel) = Inr (sub, terms)" and ne: "sub \<noteq> []"
    and unreg: "sub \<notin> fst ` set (tensors ds)"
  have "map_of (tensors ds) sub = None" using unreg by (simp add: map_of_eq_None_iff)
  then show ?thesis using split ne by (simp add: setitem_def)
qed

lemmas eval_dict = get_dictionary_def endswith_def startswith_def slice_or_default_def shape0_def
  ds_group_def Let_def

text \<open>
  The path \<^verbatim>\<open>/group\<close> is a group prefix (reading it gives the dictionary of its two
  fields) and \<^verbatim>\<open>/missing\<close> matches nothing.
\<close>

theorem setitem_unregistered_path_witness:
  "slice_split (listify (Seq [Str ''group'', Rng (Index 1)])) = Inr (''/group'', [Index 1]) \<and>
   ''/group'' \<notin> fst ` set (tensors ds_group) \<and>
   get_dictionary ds_group ''/group'' None =
     Inr [(''a'', TensorView ''/group/a'' (One (Slice (Some 0) (Some 10) None))),
          (''b'', TensorView ''/group/b'' (One (Slice (Some 0) (Some 10) None)))] \<and>
   setitem slice_split log_setitem ds_group (Seq [Str ''group'', Rng (Index 1)]) () w_absent =
     (Some (KeyError ''/group''), ds_group, w_absent) \<and>
   setitem slice_split log_setitem ds_group (Single (Str ''missing'')) () w_absent =
     (Some (KeyError ''/missing''), ds_group, w_absent)"
proof -
  have a: "slice_split (listify (Seq [Str ''group'', Rng (Index 1)])) = Inr (''/group'', [Index 1])"
    by (simp add: eval_sel)
  have a': "slice_split (listify (Single (Str ''missing''))) = Inr (''/missing'', [])"
    by (simp add: eval_sel)
  have b: "''/group'' \<notin> fst ` set (tensors ds_group)" by (simp add: ds_group_def)
  have b': "''/missing'' \<notin> fst ` set (tensors ds_group)" by (simp add: ds_group_def)
  have c: "get_dictionary ds_group ''/group'' None =
     Inr [(''a'', TensorView ''/group/a'' (One (Slice (Some 0) (Some 10) None))),
          (''b'', TensorView ''/group/b'' (One (Slice (Some 0) (Some 10) None)))]"
    by (simp add: eval_dict)
  have n: "''/group'' \<noteq> []" "''/missing'' \<noteq> []" by simp_all
  show ?thesis
    using a b c
      setitem_unregistered_path [of slice_split "Seq [Str ''group'', Rng (Index 1)]" "''/group''"
        "[Index 1]" ds_group log_setitem "()" w_absent]
      setitem_unregistered_path [of slice_split "Single (Str ''missing'')" "''/missing''"
        "[]" ds_group log_setitem "()" w_absent]
      a' b' n
    by blast
qed

section \<open>Group reads and scoped use\<close>

text \<open>
  Claim C5 (the code departs from it). A group read with exactly one range term should
  give every member's view that term. With the position \<^verbatim>\<open>3\<close> it does; with the
  position \<^verbatim>\<open>0\<close> every view is over the full range \<^verbatim>\<open>slice(0, 10)\<close>, the result of
  the read without any term.
\<close>

theorem group_term_zero_ignored:
  "getitem slice_split slice_extract_info ds_group (Seq [Str ''group'', Rng (Index 0)]) =
     Inr (Fields (Dict
       [(''a'', TensorView ''/group/a'' (One (Slice (Some 0) (Some 10) None))),
        (''b'', TensorView ''/group/b'' (One (Slice (Some 0) (Some 10) None)))])) \<and>
   getitem slice_split slice_extract_info ds_group (Seq [Str ''group'', Rng (Index 3)]) =
     Inr (Fields (Dict
       [(''a'', TensorView ''/group/a'' (One (Index 3))),
        (''b'', TensorView ''/group/b'' (One (Index 3)))])) \<and>
   getitem slice_split slice_extract_info ds_group (Seq [Str ''group'', Rng (Index 0)]) =
     getitem slice_split slice_extract_info ds_group (Single (Str ''group''))"
  by (simp add: getitem_def listify_def slice_split_def slice_extract_info_def eval_dict)

lemma commit_loop_calls:
  "commit_loop x ts w = (r, ts', w') \<Longrightarrow> \<exists>ks. calls w' = calls w @ map CallTensorCommit ks"
proof (induction ts arbitrary: w r ts' w')
  case Nil
  then show ?case by simp
next
  case (Cons kh ts)
  obtain r1 h1 fs1 where tc: "tensor_commit x (snd kh) (files w) = (r1, h1, fs1)"
    by (cases "tensor_commit x (snd kh) (files w)") auto
  let ?w1 = "w\<lparr>files := fs1, calls := calls w @ [CallTensorCommit (fst kh)]\<rparr>"
  show ?case
  proof (cases r1)
    case (Some e)
    then have "w' = ?w1" using Cons.prems tc by (simp add: Let_def)
    then have "calls w' = calls w @ map CallTensorCommit [fst kh]" by simp
    then show ?thesis by blast
  next
    case None
    obtain r2 ts2 w2 where cl: "commit_loop x ts ?w1 = (r2, ts2, w2)"
      by (cases "commit_loop x ts ?w1") auto
    then have "w' = w2" using Cons.prems tc None by (simp add: Let_def)
    moreover obtain ks where "calls w2 = calls ?w1 @ map CallTensorCommit ks"
      using Cons.IH [OF cl] by blast
    ultimately have "calls w' = calls w @ map CallTensorCommit (fst kh # ks)" by simp
    then show ?thesis by blast
  qed
qed

lemma commit_calls:
  "commit x ds w = (r, ds', w') \<Longrightarrow>
   \<exists>ks. calls w' = calls w @ CallCommit # map CallTensorCommit ks"
proof -
  assume c: "commit x ds w = (r, ds', w')"
  obtain r1 ts1 w1 where cl: "commit_loop x (tensors ds) (w\<lparr>calls := calls w @ [CallCommit]\<rparr>) = (r1, ts1, w1)"
    by (cases "commit_loop x (tensors ds) (w\<lparr>calls := calls w @ [CallCommit]\<rparr>)") auto
  then have "w' = w1" using c by (simp add: commit_def)
  moreover obtain ks where "calls w1 = calls (w\<lparr>calls := calls w @ [CallCommit]\<rparr>) @ map CallTensorCommit ks"
    using commit_loop_calls [OF cl] by blast
  ultimately show ?thesis by auto
qed

lemma filter_commit_tensor_calls:
  "filter (\<lambda>c. c = CallCommit) (map CallTensorCommit ks) = []"
  by (induction ks) auto

text \<open>
  Claim C8. In a scoped use, whatever the body does and however it ends, leaving the
  scope runs \<^verbatim>\<open>commit\<close> exactly once, on the state the body left; when the body
  raised, the scope never ends normally: it raises the body's exception, or that of
  \<^verbatim>\<open>commit\<close> if \<^verbatim>\<open>commit\<close> raised.
\<close>

theorem scoped_exit_commits_once:
  assumes body: "body (Dataset_enter ds) w = (rb, ds1, w1)"
    and res: "with_dataset x body ds w = (res, ds2, w2)"
  shows "\<exists>rc ks. commit x ds1 w1 = (rc, ds2, w2) \<and>
           calls w2 = calls w1 @ CallCommit # map CallTensorCommit ks \<and>
           length (filter (\<lambda>c. c = CallCommit) (drop (length (calls w1)) (calls w2))) = 1 \<and>
           res = (case rb of
                    Inl e \<Rightarrow> Inl (case rc of None \<Rightarrow> e | Some e' \<Rightarrow> e')
                  | Inr a \<Rightarrow> (case rc of None \<Rightarrow> Inr (Some a) | Some e' \<Rightarrow> Inl e'))"
proof -
  obtain rc d c where cm: "commit x ds1 w1 = (rc, d, c)"
    by (cases "commit x ds1 w1") auto
  have eq: "d = ds2 \<and> c = w2 \<and>
        res = (case rb of
                    Inl e \<Rightarrow> Inl (case rc of None \<Rightarrow> e | Some e' \<Rightarrow> e')
                  | Inr a \<Rightarrow> (case rc of None \<Rightarrow> Inr (Some a) | Some e' \<Rightarrow> Inl e'))"
    using res body cm
    by (auto simp: with_dataset_def Dataset_exit_def split: sum.splits option.splits)
  obtain ks where ks: "calls c = calls w1 @ CallCommit # map CallTensorCommit ks"
    using commit_calls [OF cm] by blast
  have "length (filter (\<lambda>c. c = CallCommit) (drop (length (calls w1)) (calls c))) = 1"
    using ks by (simp add: filter_commit_tensor_calls)
  then show ?thesis using cm eq ks by blast
qed

text \<open>A body that raises, around a dataset with one field.\<close>

theorem scoped_exit_commits_once_witness:
  "with_dataset x_rec (\<lambda>d w. (Inl (ExternalError ''boom'') :: exn + unit, d, w)) ds_label w_dataset =
     (Inl (ExternalError ''boom''), ds_label,
      w_dataset\<lparr>calls := [CallCommit, CallTensorCommit ''/label'']\<rparr>) \<and>
   (\<exists>rc ks. commit x_rec ds_label w_dataset =
        (rc, ds_label, w_dataset\<lparr>calls := [CallCommit, CallTensorCommit ''/label'']\<rparr>) \<and>
      calls (w_dataset\<lparr>calls := [CallCommit, CallTensorCommit ''/label'']\<rparr>) =
        calls w_dataset @ CallCommit # map CallTensorCommit ks)"
proof -
  let ?body = "\<lambda>(d :: (flat_tensor list, tensor_args) dataset) (w :: flat_tensor list world).
     (Inl (ExternalError ''boom'') :: exn + unit, d, w)"
  have b: "?body (Dataset_enter ds_label) w_dataset = (Inl (ExternalError ''boom''), ds_label, w_dataset)"
    by (simp add: Dataset_enter_def)
  have r: "with_dataset x_rec ?body ds_label w_dataset =
     (Inl (ExternalError ''boom''), ds_label,
      w_dataset\<lparr>calls := [CallCommit, CallTensorCommit ''/label'']\<rparr>)"
    by (simp add: with_dataset_def Dataset_exit_def Dataset_enter_def commit_def x_rec_def
        ds_label_def w_dataset_def Let_def)
  show ?thesis using r scoped_exit_commits_once [OF b r] by blast
qed

section \<open>Rollback of a failed creation\<close>

lemma fs_rm_clears:
  "(\<forall>k. prefix (segs p) k \<longrightarrow> map_of (files (fs_rm p w)) k = None) \<and>
   \<not> fs_exists (fs_rm p w) p \<and>
   \<not> fs_exists (fs_rm p w) (posixpath_join p ''meta.json'') \<and>
   (\<forall>k. \<not> prefix (segs p) k \<longrightarrow> map_of (files (fs_rm p w)) k = map_of (files w) k) \<and>
   calls (fs_rm p w) = calls w @ [CallRm p]"
  by (simp add: fs_exists_def fs_rm_def map_of_rm_tree segs_meta)

text \<open>
  Claim C3. In a creation (after featurify and serialize have succeeded), when
  flattening the schema fails, or when making the storage of some field fails, the
  constructor raises that same exception after removing the dataset's tree: nothing at
  or below the dataset's path is left, in particular no descriptor, and entries outside
  the tree are as the failed step left them.
\<close>

theorem create_rollback:
  assumes pth: "pth = get_fs_and_path x u"
    and prep: "check_and_prepare_dir pth md w = (Inr True, w1)"
    and rank: "length (default_shape sh) = 1"
    and feat: "featurify x s = Inr sch"
    and ser: "serialize x sch = Inr j"
    and fail: "(flatten x sch = Inl e \<and> w2 = fs_map_set_meta pth (default_shape sh) j 1 w1) \<or>
               (\<exists>fts. flatten x sch = Inr fts \<and>
                  generate_storage_tensors x pth md (default_shape sh) fts []
                    (fs_map_set_meta pth (default_shape sh) j 1 w1) = (Inl e, w2))"
  shows "Dataset_init x u (Some md) safe sh s w = (Inl e, fs_rm pth w2) \<and>
         (\<forall>k. prefix (segs pth) k \<longrightarrow> map_of (files (fs_rm pth w2)) k = None) \<and>
         \<not> fs_exists (fs_rm pth w2) pth \<and>
         \<not> fs_exists (fs_rm pth w2) (posixpath_join pth ''meta.json'') \<and>
         (\<forall>k. \<not> prefix (segs pth) k \<longrightarrow>
              map_of (files (fs_rm pth w2)) k = map_of (files w2) k) \<and>
         calls (fs_rm pth w2) = calls w2 @ [CallRm pth]"
proof -
  have body: "init_create_body x u md pth (default_shape sh) s w1 = (Inl e, w2)"
    using fail feat ser by (auto simp: init_create_body_def Let_def)
  have "Dataset_init x u (Some md) safe sh s w = (Inl e, fs_rm pth w2)"
    using pth prep rank body by (simp add: Dataset_init_def init_create_def Let_def)
  then show ?thesis using fs_rm_clears [of pth w2] by blast
qed


text \<open>
  A creation whose second field store cannot be constructed, and one whose schema
  cannot be flattened: both end with the storage holding nothing of the dataset.
\<close>

theorem create_rollback_witness:
  "Dataset_init x_rec ''ds'' (Some ''w'') False (Some [Some 5]) [ft_label, ft_broken] w_absent =
     (Inl (ExternalError ''no space''),
      \<lparr>files = [([], Dir)],
       calls = [CallMakedirs ''ds'', CallSetMeta ''ds'',
                CallMakedirs ''ds/label/--dynamic--'', CallDynamicTensor ''/label'',
                CallMakedirs ''ds/broken/--dynamic--'', CallDynamicTensor ''/broken'',
                CallRm ''ds'']\<rparr>) \<and>
   Dataset_init (x_rec\<lparr>flatten := \<lambda>s. Inl (ExternalError ''bad schema'')\<rparr>)
       ''ds'' (Some ''w'') False (Some [Some 5]) [ft_label] w_absent =
     (Inl (ExternalError ''bad schema''),
      \<lparr>files = [([], Dir)],
       calls = [CallMakedirs ''ds'', CallSetMeta ''ds'', CallRm ''ds'']\<rparr>)"
proof -
  let ?w1 = "\<lparr>files = [([], Dir), ([''ds''], Dir)], calls = [CallMakedirs ''ds'']\<rparr>
               :: flat_tensor list world"
  let ?w2 = "\<lparr>files = [([], Dir), ([''ds''], Dir),
              ([''ds'', ''meta.json''], MetaFile [Some 5] [ft_label, ft_broken] 1),
              ([''ds'', ''label''], Dir), ([''ds'', ''label'', ''--dynamic--''], Dir),
              ([''ds'', ''broken''], Dir), ([''ds'', ''broken'', ''--dynamic--''], Dir)],
     calls = [CallMakedirs ''ds'', CallSetMeta ''ds'',
              CallMakedirs ''ds/label/--dynamic--'', CallDynamicTensor ''/label'',
              CallMakedirs ''ds/broken/--dynamic--'', CallDynamicTensor ''/broken'']\<rparr>
               :: flat_tensor list world"
  let ?x = "x_rec\<lparr>flatten := \<lambda>s. Inl (ExternalError ''bad schema'')\<rparr>"
  have p: "''ds'' = get_fs_and_path x_rec ''ds''" "''ds'' = get_fs_and_path ?x ''ds''"
    by (simp_all add: x_rec_def)
  have c: "check_and_prepare_dir ''ds'' ''w'' w_absent = (Inr True, ?w1)"
    by (simp add: eval_init eval_fs)
  have r: "length (default_shape (Some [Some (5::int)])) = 1" by (simp add: default_shape_def)
  have f: "featurify x_rec [ft_label, ft_broken] = Inr [ft_label, ft_broken]"
    "featurify ?x [ft_label] = Inr [ft_label]"
    by (simp_all add: x_rec_def)
  have s: "serialize x_rec [ft_label, ft_broken] = Inr [ft_label, ft_broken]"
    "serialize ?x [ft_label] = Inr [ft_label]"
    by (simp_all add: x_rec_def)
  have g: "(flatten x_rec [ft_label, ft_broken] = Inl (ExternalError ''no space'') \<and>
            ?w2 = fs_map_set_meta ''ds'' (default_shape (Some [Some 5])) [ft_label, ft_broken] 1 ?w1) \<or>
           (\<exists>fts. flatten x_rec [ft_label, ft_broken] = Inr fts \<and>
              generate_storage_tensors x_rec ''ds'' ''w'' (default_shape (Some [Some 5])) fts []
                (fs_map_set_meta ''ds'' (default_shape (Some [Some 5])) [ft_label, ft_broken] 1 ?w1) =
              (Inl (ExternalError ''no space''), ?w2))"
    by (simp add: eval_init eval_fs)
  let ?w3 = "fs_map_set_meta ''ds'' (default_shape (Some [Some 5])) [ft_label] 1 ?w1"
  have h: "(flatten ?x [ft_label] = Inl (ExternalError ''bad schema'') \<and> ?w3 = ?w3) \<or>
           (\<exists>fts. flatten ?x [ft_label] = Inr fts \<and>
              generate_storage_tensors ?x ''ds'' ''w'' (default_shape (Some [Some 5])) fts [] ?w3 =
              (Inl (ExternalError ''bad schema''), ?w3))"
    by (simp add: x_rec_def)
  have a: "Dataset_init x_rec ''ds'' (Some ''w'') False (Some [Some 5]) [ft_label, ft_broken] w_absent =
      (Inl (ExternalError ''no space''), fs_rm ''ds'' ?w2)"
    using create_rollback [OF p(1) c r f(1) s(1) g, of False] by blast
  have b: "Dataset_init ?x ''ds'' (Some ''w'') False (Some [Some 5]) [ft_label] w_absent =
      (Inl (ExternalError ''bad schema''), fs_rm ''ds'' ?w3)"
    using create_rollback [OF p(2) c r f(2) s(2) h, of False] by blast
  have "fs_rm ''ds'' ?w2 = \<lparr>files = [([], Dir)],
       calls = [CallMakedirs ''ds'', CallSetMeta ''ds'',
                CallMakedirs ''ds/label/--dynamic--'', CallDynamicTensor ''/label'',
                CallMakedirs ''ds/broken/--dynamic--'', CallDynamicTensor ''/broken'',
                CallRm ''ds'']\<rparr>"
    by (simp add: fs_rm_def rm_tree_def eval_fs)
  moreover have "fs_rm ''ds'' ?w3 = \<lparr>files = [([], Dir)],
       calls = [CallMakedirs ''ds'', CallSetMeta ''ds'', CallRm ''ds'']\<rparr>"
    by (simp add: fs_rm_def rm_tree_def fs_map_set_meta_def eval_fs)
  ultimately show ?thesis using a b by simp
qed

section \<open>When the descriptor is written\<close>

lemma generate_calls:
  "generate_storage_tensors x pth md sh fts acc w = (Inr ts, w') \<Longrightarrow>
   calls w' = calls w @ concat (map (store_calls pth) fts)"
proof (induction fts arbitrary: acc w)
  case Nil
  then show ?case by simp
next
  case (Cons t fts)
  let ?p = "posixpath_join pth (drop 1 (ft_path t))"
  obtain r1 w1 where mk: "fs_makedirs (posixpath_join ?p ''--dynamic--'') w = (r1, w1)"
    by (cases "fs_makedirs (posixpath_join ?p ''--dynamic--'') w") auto
  have r1: "r1 = None" using Cons.prems mk by (cases r1) (auto simp: Let_def)
  have c1: "calls w1 = calls w @ [CallMakedirs (posixpath_join ?p ''--dynamic--'')]"
    using mk by (auto simp: fs_makedirs_def Let_def split: if_splits)
  let ?a = "\<lparr>ta_key = ft_path t, ta_dir = ?p, ta_root = pth, ta_mode = md,
             ta_shape = sh @ ft_shape t, ta_max_shape = Some (sh @ ft_max_shape t),
             ta_dtype = Some (ft_dtype t), ta_chunks = Some (ft_chunks t)\<rparr>"
  obtain r2 w2 where nt: "new_tensor x ?a w1 = (r2, w2)"
    by (cases "new_tensor x ?a w1") auto
  obtain h where h: "r2 = Inr h" using Cons.prems mk r1 nt by (cases r2) (auto simp: Let_def)
  have c2: "calls w2 = calls w1 @ [CallDynamicTensor (ft_path t)]"
    using nt by (auto simp: new_tensor_def split: prod.splits)
  have rest: "generate_storage_tensors x pth md sh fts (AList.update (ft_path t) h acc) w2 = (Inr ts, w')"
    using Cons.prems mk r1 nt h by (simp add: Let_def)
  show ?case using Cons.IH [OF rest] c1 c2 by (simp add: store_calls_def)
qed

lemma prepare_calls:
  "check_and_prepare_dir pth md w = (Inr b, w1) \<Longrightarrow>
   calls w1 = calls w \<or> calls w1 = calls w @ [CallMakedirs pth] \<or>
   calls w1 = calls w @ [CallRm pth, CallMakedirs pth]"
  by (auto simp: check_and_prepare_dir_def fs_makedirs_def fs_rm_def Let_def
           split: if_splits prod.splits option.splits)

lemma store_calls_filters:
  "filter is_set_meta (concat (map (store_calls pth) fts)) = []"
  "filter is_new_tensor (concat (map (store_calls pth) fts)) = map (\<lambda>t. CallDynamicTensor (ft_path t)) fts"
  by (induction fts) (auto simp: store_calls_def is_set_meta_def is_new_tensor_def)

lemma init_create_body_InrD:
  assumes "init_create_body x u md pth shp s w1 = (Inr ds, w')"
  shows "\<exists>sch j fts ts. featurify x s = Inr sch \<and> serialize x sch = Inr j \<and>
           flatten x sch = Inr fts \<and>
           generate_storage_tensors x pth md shp fts [] (fs_map_set_meta pth shp j 1 w1) = (Inr ts, w') \<and>
           ds = \<lparr>url = u, mode = md, path = pth, shape = shp, schema = sch,
                  flat_tensors = fts, tensors = ts\<rparr>"
proof (cases "featurify x s")
  case (Inl e)
  then show ?thesis using assms by (simp add: init_create_body_def)
next
  case (Inr sch)
  note f = this
  show ?thesis
  proof (cases "serialize x sch")
    case (Inl e)
    then show ?thesis using assms f by (simp add: init_create_body_def)
  next
    case (Inr j)
    note sr = this
    show ?thesis
    proof (cases "flatten x sch")
      case (Inl e)
      then show ?thesis using assms f sr by (simp add: init_create_body_def Let_def)
    next
      case (Inr fts)
      note fl = this
      obtain r w2 where g: "generate_storage_tensors x pth md shp fts []
          (fs_map_set_meta pth shp j 1 w1) = (r, w2)"
        by (cases "generate_storage_tensors x pth md shp fts [] (fs_map_set_meta pth shp j 1 w1)") auto
      show ?thesis
      proof (cases r)
        case (Inl e)
        then show ?thesis using assms f sr fl g by (simp add: init_create_body_def Let_def)
      next
        case (Inr ts)
        then show ?thesis using assms f sr fl g by (simp add: init_create_body_def Let_def)
      qed
    qed
  qed
qed

lemma makedirs_preserves:
  "fs_makedirs p w = (r, w') \<Longrightarrow> map_of (files w) k = Some v \<Longrightarrow> map_of (files w') k = Some v"
  by (auto simp: fs_makedirs_def Let_def map_of_add_dirs split: if_splits)

lemma new_tensor_files:
  "new_tensor x a w = (r, w') \<Longrightarrow> files w' = snd (DynamicTensor x a (files w))"
  by (auto simp: new_tensor_def split: prod.splits)

lemma generate_preserves:
  assumes pres: "\<forall>a fs. map_of (snd (DynamicTensor x a fs)) k = map_of fs k"
  shows "generate_storage_tensors x pth md sh fts acc w = (r, w') \<Longrightarrow>
         map_of (files w) k = Some v \<Longrightarrow> map_of (files w') k = Some v"
proof (induction fts arbitrary: acc w)
  case Nil
  then show ?case by simp
next
  case (Cons t fts)
  let ?p = "posixpath_join pth (drop 1 (ft_path t))"
  obtain r1 w1 where mk: "fs_makedirs (posixpath_join ?p ''--dynamic--'') w = (r1, w1)"
    by (cases "fs_makedirs (posixpath_join ?p ''--dynamic--'') w") auto
  have k1: "map_of (files w1) k = Some v" using makedirs_preserves [OF mk Cons.prems(2)] .
  show ?case
  proof (cases r1)
    case (Some e)
    then have "w' = w1" using Cons.prems(1) mk by (simp add: Let_def)
    then show ?thesis using k1 by simp
  next
    case None
    let ?a = "\<lparr>ta_key = ft_path t, ta_dir = ?p, ta_root = pth, ta_mode = md,
             ta_shape = sh @ ft_shape t, ta_max_shape = Some (sh @ ft_max_shape t),
             ta_dtype = Some (ft_dtype t), ta_chunks = Some (ft_chunks t)\<rparr>"
    obtain r2 w2 where nt: "new_tensor x ?a w1 = (r2, w2)"
      by (cases "new_tensor x ?a w1") auto
    have k2: "map_of (files w2) k = Some v"
      using new_tensor_files [OF nt] pres k1 by simp
    show ?thesis
    proof (cases r2)
      case (Inl e)
      then have "w' = w2" using Cons.prems(1) mk None nt by (simp add: Let_def)
      then show ?thesis using k2 by simp
    next
      case (Inr h)
      then have "generate_storage_tensors x pth md sh fts (AList.update (ft_path t) h acc) w2 = (r, w')"
        using Cons.prems(1) mk None nt by (simp add: Let_def)
      then show ?thesis using Cons.IH k2 by blast
    qed
  qed
qed

text \<open>
  Claim C7, as amended. In every successful creation the constructor itself writes the
  descriptor exactly once, after the directory has been prepared and before the first
  field store is constructed: its calls are those of the preparation, the write of the
  descriptor, and then, for every field descriptor in order, the making of its
  directory and the construction of its handle. The record written holds the sample
  shape given, the serialized schema and the version 1, and it is in storage when the
  construction of the field stores starts. The handles are given the same storage map
  and what they do to the record is theirs; when their constructors leave the record as
  it is, the record in storage at the end of the creation is the one written.
\<close>

theorem meta_written_before_stores:
  assumes pth: "pth = get_fs_and_path x u"
    and mk: "mk = segs (posixpath_join pth ''meta.json'')"
    and prep: "check_and_prepare_dir pth md w = (Inr True, w1)"
    and ok: "Dataset_init x u (Some md) safe sh s w = (Inr ds, w')"
  shows "(\<exists>pre. (pre = [] \<or> pre = [CallMakedirs pth] \<or> pre = [CallRm pth, CallMakedirs pth]) \<and>
            calls w' = calls w @ pre @ CallSetMeta pth # concat (map (store_calls pth) (flat_tensors ds))) \<and>
         length (filter is_set_meta (drop (length (calls w)) (calls w'))) = 1 \<and>
         filter is_new_tensor
           (takeWhile (\<lambda>c. \<not> is_set_meta c) (drop (length (calls w)) (calls w'))) = [] \<and>
         filter is_new_tensor (dropWhile (\<lambda>c. \<not> is_set_meta c) (drop (length (calls w)) (calls w'))) =
           map (\<lambda>t. CallDynamicTensor (ft_path t)) (flat_tensors ds) \<and>
         (\<exists>j wm. serialize x (schema ds) = Inr j \<and> featurify x s = Inr (schema ds) \<and>
            wm = fs_map_set_meta pth (default_shape sh) j 1 w1 \<and>
            map_of (files wm) mk = Some (MetaFile (default_shape sh) j 1) \<and>
            generate_storage_tensors x pth md (default_shape sh) (flat_tensors ds) [] wm =
              (Inr (tensors ds), w') \<and>
            ((\<forall>a fs. map_of (snd (DynamicTensor x a fs)) mk = map_of fs mk) \<longrightarrow>
               map_of (files w') mk = Some (MetaFile (default_shape sh) j 1)))"
proof -
  have rank: "length (default_shape sh) = 1"
  proof (rule ccontr)
    assume "length (default_shape sh) \<noteq> 1"
    then have "Dataset_init x u (Some md) safe sh s w = (Inl AssertionError, w)"
      by (simp add: Dataset_init_def Let_def)
    then show False using ok by simp
  qed
  have cr: "init_create x u md pth (default_shape sh) s w1 = (Inr ds, w')"
    using ok pth prep rank by (simp add: Dataset_init_def Let_def)
  have body: "init_create_body x u md pth (default_shape sh) s w1 = (Inr ds, w')"
    using cr by (cases "init_create_body x u md pth (default_shape sh) s w1")
      (auto simp: init_create_def split: sum.splits)
  obtain sch j fts ts where
    ft: "featurify x s = Inr sch" and sr: "serialize x sch = Inr j" and
    gen': "generate_storage_tensors x pth md (default_shape sh) fts []
            (fs_map_set_meta pth (default_shape sh) j 1 w1) = (Inr ts, w')" and
    dsv: "ds = \<lparr>url = u, mode = md, path = pth, shape = default_shape sh, schema = sch,
                  flat_tensors = fts, tensors = ts\<rparr>"
    using init_create_body_InrD [OF body] by blast
  have ds: "flat_tensors ds = fts" using dsv by simp
  have c: "calls w' = calls w1 @ CallSetMeta pth # concat (map (store_calls pth) (flat_tensors ds))"
    using generate_calls [OF gen'] ds by (simp add: fs_map_set_meta_def)
  define pre where "pre = drop (length (calls w)) (calls w1)"
  have pc: "calls w1 = calls w \<or> calls w1 = calls w @ [CallMakedirs pth] \<or>
            calls w1 = calls w @ [CallRm pth, CallMakedirs pth]"
    using prepare_calls [OF prep] .
  have w1: "calls w1 = calls w @ pre"
    using pc unfolding pre_def by (elim disjE) simp_all
  have pre: "pre = [] \<or> pre = [CallMakedirs pth] \<or> pre = [CallRm pth, CallMakedirs pth]"
    using pc unfolding pre_def by (elim disjE) simp_all
  have full: "calls w' = calls w @ pre @ CallSetMeta pth # concat (map (store_calls pth) (flat_tensors ds))"
    using c w1 by simp
  have dr: "drop (length (calls w)) (calls w') =
      pre @ CallSetMeta pth # concat (map (store_calls pth) (flat_tensors ds))"
    using full by simp
  have npre: "\<forall>c \<in> set pre. \<not> is_set_meta c \<and> \<not> is_new_tensor c"
    using pre by (auto simp: is_set_meta_def is_new_tensor_def)
  have fpre: "filter is_set_meta pre = []" "filter is_new_tensor pre = []"
    using npre by (auto simp: filter_empty_conv)
  have sm: "is_set_meta (CallSetMeta pth)" "\<not> is_new_tensor (CallSetMeta pth)"
    by (simp_all add: is_set_meta_def is_new_tensor_def)
  have tw: "takeWhile (\<lambda>c. \<not> is_set_meta c)
        (pre @ CallSetMeta pth # concat (map (store_calls pth) (flat_tensors ds))) = pre"
    using npre sm by (simp add: takeWhile_append2)
  have dw: "dropWhile (\<lambda>c. \<not> is_set_meta c)
        (pre @ CallSetMeta pth # concat (map (store_calls pth) (flat_tensors ds))) =
        CallSetMeta pth # concat (map (store_calls pth) (flat_tensors ds))"
    using npre sm by (simp add: dropWhile_append2)
  have one: "length (filter is_set_meta (drop (length (calls w)) (calls w'))) = 1"
    unfolding dr using fpre sm by (simp add: store_calls_filters)
  have none_before: "filter is_new_tensor
           (takeWhile (\<lambda>c. \<not> is_set_meta c) (drop (length (calls w)) (calls w'))) = []"
    unfolding dr tw using fpre by simp
  have all_after: "filter is_new_tensor (dropWhile (\<lambda>c. \<not> is_set_meta c) (drop (length (calls w)) (calls w'))) =
           map (\<lambda>t. CallDynamicTensor (ft_path t)) (flat_tensors ds)"
    unfolding dr dw using sm by (simp add: store_calls_filters)
  let ?wm = "fs_map_set_meta pth (default_shape sh) j 1 w1"
  have m0: "map_of (files ?wm) mk = Some (MetaFile (default_shape sh) j 1)"
    by (simp add: fs_map_set_meta_def mk update_conv')
  have kept: "(\<forall>a fs. map_of (snd (DynamicTensor x a fs)) mk = map_of fs mk) \<longrightarrow>
               map_of (files w') mk = Some (MetaFile (default_shape sh) j 1)"
  proof
    assume pres: "\<forall>a fs. map_of (snd (DynamicTensor x a fs)) mk = map_of fs mk"
    show "map_of (files w') mk = Some (MetaFile (default_shape sh) j 1)"
      using generate_preserves [OF pres gen' m0] .
  qed
  have sd: "schema ds = sch" "tensors ds = ts" using dsv by simp_all
  have rec: "\<exists>j wm. serialize x (schema ds) = Inr j \<and> featurify x s = Inr (schema ds) \<and>
            wm = fs_map_set_meta pth (default_shape sh) j 1 w1 \<and>
            map_of (files wm) mk = Some (MetaFile (default_shape sh) j 1) \<and>
            generate_storage_tensors x pth md (default_shape sh) (flat_tensors ds) [] wm =
              (Inr (tensors ds), w') \<and>
            ((\<forall>a fs. map_of (snd (DynamicTensor x a fs)) mk = map_of fs mk) \<longrightarrow>
               map_of (files w') mk = Some (MetaFile (default_shape sh) j 1))"
    using sr ft m0 gen' kept unfolding sd ds by blast
  have log: "\<exists>pre. (pre = [] \<or> pre = [CallMakedirs pth] \<or> pre = [CallRm pth, CallMakedirs pth]) \<and>
            calls w' = calls w @ pre @ CallSetMeta pth # concat (map (store_calls pth) (flat_tensors ds))"
    using pre full by blast
  show ?thesis using log one none_before all_after rec by (intro conjI)
qed

text \<open>
  Claim C7 as it was stated (the descriptor is written after all field stores have been
  constructed) fails on a creation with one field: the write precedes the construction,
  and the handle, which reports what it found, was constructed with the descriptor
  already in storage.
\<close>

theorem meta_written_at_end_counterexample:
  "Dataset_init x_rec ''ds'' (Some ''w'') False (Some [Some 5]) [ft_probe] w_absent =
     (Inr \<lparr>url = ''ds'', mode = ''w'', path = ''ds'', shape = [Some 5], schema = [ft_probe],
           flat_tensors = [ft_probe],
           tensors = [(''/probe'',
              \<lparr>ta_key = ''/probe'', ta_dir = ''ds/probe'', ta_root = ''ds'', ta_mode = ''w'',
               ta_shape = [Some 5], ta_max_shape = Some [Some 5],
               ta_dtype = Some ''descriptor present'', ta_chunks = Some None\<rparr>)]\<rparr>,
      \<lparr>files = [([], Dir), ([''ds''], Dir),
                ([''ds'', ''meta.json''], MetaFile [Some 5] [ft_probe] 1),
                ([''ds'', ''probe''], Dir), ([''ds'', ''probe'', ''--dynamic--''], Dir)],
       calls = [CallMakedirs ''ds'', CallSetMeta ''ds'',
                CallMakedirs ''ds/probe/--dynamic--'', CallDynamicTensor ''/probe'']\<rparr>) \<and>
   \<not> meta_written_at_end
       [CallMakedirs ''ds'', CallSetMeta ''ds'',
        CallMakedirs ''ds/probe/--dynamic--'', CallDynamicTensor ''/probe'']"
  by (simp add: eval_init eval_fs meta_written_at_end_def is_set_meta_def is_new_tensor_def)

text \<open>
  A creation with one field on absent storage, with a handle constructor that leaves
  storage as it is.
\<close>

theorem meta_written_before_stores_witness:
  "check_and_prepare_dir ''ds'' ''w'' w_absent =
     (Inr True, \<lparr>files = [([], Dir), ([''ds''], Dir)], calls = [CallMakedirs ''ds'']\<rparr>) \<and>
   Dataset_init x_rec ''ds'' (Some ''w'') False (Some [Some 5]) [ft_label] w_absent =
     (Inr ds_created, w_created) \<and>
   (\<forall>a fs. map_of (snd (DynamicTensor x_rec a fs)) (segs (posixpath_join ''ds'' ''meta.json'')) =
           map_of fs (segs (posixpath_join ''ds'' ''meta.json''))) \<and>
   length (filter is_set_meta (drop (length (calls w_absent)) (calls w_created))) = 1 \<and>
   filter is_new_tensor
     (takeWhile (\<lambda>c. \<not> is_set_meta c) (drop (length (calls w_absent)) (calls w_created))) = [] \<and>
   filter is_new_tensor
     (dropWhile (\<lambda>c. \<not> is_set_meta c) (drop (length (calls w_absent)) (calls w_created))) =
     [CallDynamicTensor ''/label''] \<and>
   map_of (files w_created) (segs (posixpath_join ''ds'' ''meta.json'')) =
     Some (MetaFile [Some 5] [ft_label] 1)"
proof -
  let ?w1 = "\<lparr>files = [([], Dir), ([''ds''], Dir)], calls = [CallMakedirs ''ds'']\<rparr>
               :: flat_tensor list world"
  let ?mk = "segs (posixpath_join ''ds'' ''meta.json'')"
  have p: "''ds'' = get_fs_and_path x_rec ''ds''" by (simp add: x_rec_def)
  have c: "check_and_prepare_dir ''ds'' ''w'' w_absent = (Inr True, ?w1)"
    by (simp add: eval_init eval_fs)
  have i: "Dataset_init x_rec ''ds'' (Some ''w'') False (Some [Some 5]) [ft_label] w_absent =
      (Inr ds_created, w_created)"
    by (simp add: eval_init eval_fs ds_created_def w_created_def)
  have pn: "\<forall>a fs. map_of (snd (DynamicTensor x_rec a fs)) ?mk = map_of fs ?mk"
    by (simp add: x_rec_def)
  note t = meta_written_before_stores [OF p refl c i]
  have one: "length (filter is_set_meta (drop (length (calls w_absent)) (calls w_created))) = 1"
    using t by blast
  have before: "filter is_new_tensor
     (takeWhile (\<lambda>c. \<not> is_set_meta c) (drop (length (calls w_absent)) (calls w_created))) = []"
    using t by blast
  have "filter is_new_tensor
     (dropWhile (\<lambda>c. \<not> is_set_meta c) (drop (length (calls w_absent)) (calls w_created))) =
     map (\<lambda>t. CallDynamicTensor (ft_path t)) (flat_tensors ds_created)"
    using t by blast
  then have after: "filter is_new_tensor
     (dropWhile (\<lambda>c. \<not> is_set_meta c) (drop (length (calls w_absent)) (calls w_created))) =
     [CallDynamicTensor ''/label'']"
    by (simp add: ds_created_def ft_label_def)
  obtain j where j: "serialize x_rec (schema ds_created) = Inr j"
    and kept: "(\<forall>a fs. map_of (snd (DynamicTensor x_rec a fs)) ?mk = map_of fs ?mk) \<longrightarrow>
      map_of (files w_created) ?mk = Some (MetaFile (default_shape (Some [Some 5])) j 1)"
    using t by blast
  have "j = [ft_label]" using j by (simp add: x_rec_def ds_created_def)
  then have rec: "map_of (files w_created) ?mk = Some (MetaFile [Some 5] [ft_label] 1)"
    using kept pn by (simp add: default_shape_def)
  show ?thesis using c i pn one before after rec by (intro conjI)
qed

section \<open>Create, commit, reopen\<close>

lemma commit_loop_preserves:
  assumes pres: "\<forall>h fs. map_of (snd (snd (tensor_commit x h fs))) k = map_of fs k"
  shows "commit_loop x ts w = (r, ts', w') \<Longrightarrow> map_of (files w') k = map_of (files w) k"
proof (induction ts arbitrary: w r ts' w')
  case Nil
  then show ?case by simp
next
  case (Cons kh ts)
  obtain r1 h1 fs1 where tc: "tensor_commit x (snd kh) (files w) = (r1, h1, fs1)"
    by (cases "tensor_commit x (snd kh) (files w)") auto
  have f1: "map_of fs1 k = map_of (files w) k"
    using pres [rule_format, of "snd kh" "files w"] tc by simp
  let ?w1 = "w\<lparr>files := fs1, calls := calls w @ [CallTensorCommit (fst kh)]\<rparr>"
  show ?case
  proof (cases r1)
    case (Some e)
    then have "w' = ?w1" using Cons.prems tc by (simp add: Let_def)
    then show ?thesis using f1 by simp
  next
    case None
    obtain r2 ts2 w2 where cl: "commit_loop x ts ?w1 = (r2, ts2, w2)"
      by (cases "commit_loop x ts ?w1") auto
    then have "w' = w2" using Cons.prems tc None by (simp add: Let_def)
    then show ?thesis using Cons.IH [OF cl] f1 by simp
  qed
qed

lemma commit_preserves:
  assumes pres: "\<forall>h fs. map_of (snd (snd (tensor_commit x h fs))) k = map_of fs k"
    and c: "commit x ds w = (r, ds', w')"
  shows "map_of (files w') k = map_of (files w) k"
proof -
  obtain r1 ts1 w1 where cl: "commit_loop x (tensors ds) (w\<lparr>calls := calls w @ [CallCommit]\<rparr>) = (r1, ts1, w1)"
    by (cases "commit_loop x (tensors ds) (w\<lparr>calls := calls w @ [CallCommit]\<rparr>)") auto
  then have "w' = w1" using c by (simp add: commit_def)
  then show ?thesis using commit_loop_preserves [OF pres cl] by simp
qed

lemma generate_keys:
  "generate_storage_tensors x pth md sh fts acc w = (Inr ts, w') \<Longrightarrow>
   map fst ts = foldl (\<lambda>ks t. if ft_path t \<in> set ks then ks else ks @ [ft_path t]) (map fst acc) fts"
proof (induction fts arbitrary: acc w)
  case Nil
  then show ?case by simp
next
  case (Cons t fts)
  let ?p = "posixpath_join pth (drop 1 (ft_path t))"
  obtain r1 w1 where mk: "fs_makedirs (posixpath_join ?p ''--dynamic--'') w = (r1, w1)"
    by (cases "fs_makedirs (posixpath_join ?p ''--dynamic--'') w") auto
  have r1: "r1 = None" using Cons.prems mk by (cases r1) (auto simp: Let_def)
  let ?a = "\<lparr>ta_key = ft_path t, ta_dir = ?p, ta_root = pth, ta_mode = md,
             ta_shape = sh @ ft_shape t, ta_max_shape = Some (sh @ ft_max_shape t),
             ta_dtype = Some (ft_dtype t), ta_chunks = Some (ft_chunks t)\<rparr>"
  obtain r2 w2 where nt: "new_tensor x ?a w1 = (r2, w2)"
    by (cases "new_tensor x ?a w1") auto
  obtain h where h: "r2 = Inr h" using Cons.prems mk r1 nt by (cases r2) (auto simp: Let_def)
  have rest: "generate_storage_tensors x pth md sh fts (AList.update (ft_path t) h acc) w2 = (Inr ts, w')"
    using Cons.prems mk r1 nt h by (simp add: Let_def)
  show ?case using Cons.IH [OF rest] by (simp add: update_keys)
qed

lemma open_keys:
  "open_storage_tensors x pth md sh fts acc w = (Inr ts, w') \<Longrightarrow>
   map fst ts = foldl (\<lambda>ks t. if ft_path t \<in> set ks then ks else ks @ [ft_path t]) (map fst acc) fts"
proof (induction fts arbitrary: acc w)
  case Nil
  then show ?case by simp
next
  case (Cons t fts)
  let ?p = "posixpath_join pth (drop 1 (ft_path t))"
  let ?a = "\<lparr>ta_key = ft_path t, ta_dir = ?p, ta_root = pth, ta_mode = md,
             ta_shape = sh @ ft_shape t, ta_max_shape = None,
             ta_dtype = None, ta_chunks = None\<rparr>"
  obtain r2 w2 where nt: "new_tensor x ?a w = (r2, w2)"
    by (cases "new_tensor x ?a w") auto
  obtain h where h: "r2 = Inr h" using Cons.prems nt by (cases r2) (auto simp: Let_def)
  have rest: "open_storage_tensors x pth md sh fts (AList.update (ft_path t) h acc) w2 = (Inr ts, w')"
    using Cons.prems nt h by (simp add: Let_def)
  show ?case using Cons.IH [OF rest] by (simp add: update_keys)
qed

lemma foldl_keys_set:
  "set (foldl (\<lambda>ks t. if ft_path t \<in> set ks then ks else ks @ [ft_path t]) ks0 fts) =
   set ks0 \<union> ft_path ` set fts"
  by (induction fts arbitrary: ks0) auto

lemma init_open_InrD:
  assumes "init_open x u md pth w = (Inr ds, w')"
  shows "\<exists>msh mj sch fts ts. fs_map_get_meta pth w = Inr (msh, mj) \<and> deserialize x mj = Inr sch \<and>
           flatten x sch = Inr fts \<and>
           open_storage_tensors x pth md msh fts [] w = (Inr ts, w') \<and>
           ds = \<lparr>url = u, mode = md, path = pth, shape = msh, schema = sch,
                  flat_tensors = fts, tensors = ts\<rparr>"
proof (cases "fs_map_get_meta pth w")
  case (Inl e)
  then show ?thesis using assms by (simp add: init_open_def)
next
  case (Inr m)
  obtain msh mj where m: "m = (msh, mj)" by (cases m) auto
  note g = Inr [unfolded m]
  show ?thesis
  proof (cases "deserialize x mj")
    case (Inl e)
    then show ?thesis using assms g by (simp add: init_open_def)
  next
    case (Inr sch)
    note d = this
    show ?thesis
    proof (cases "flatten x sch")
      case (Inl e)
      then show ?thesis using assms g d by (simp add: init_open_def)
    next
      case (Inr fts)
      note fl = this
      obtain r w2 where o: "open_storage_tensors x pth md msh fts [] w = (r, w2)"
        by (cases "open_storage_tensors x pth md msh fts [] w") auto
      show ?thesis
      proof (cases r)
        case (Inl e)
        then show ?thesis using assms g d fl o by (simp add: init_open_def)
      next
        case (Inr ts)
        then show ?thesis using assms g d fl o by (simp add: init_open_def)
      qed
    qed
  qed
qed

text \<open>
  Claim C4. A dataset created with sample shape \<open>(n,)\<close> and a schema, then committed
  and opened again at the same url in a mode without \<^verbatim>\<open>w\<close> (such as \<^verbatim>\<open>r\<close>): the
  reopened dataset has sample shape \<open>(n,)\<close>, the schema of the created one and the same
  field paths, in the same order. What is assumed of the collaborators: deserializing
  a serialized schema gives the schema back, and neither the construction nor the
  commit of a handle changes the shape, schema and version held in the descriptor.
\<close>

theorem create_commit_reopen_roundtrip:
  assumes pth: "pth = get_fs_and_path x u"
    and mk: "mk = segs (posixpath_join pth ''meta.json'')"
    and created: "check_and_prepare_dir pth md w = (Inr True, w0)"
    and init1: "Dataset_init x u (Some md) safe (Some [n]) s w = (Inr ds, w1)"
    and committed: "commit x ds w1 = (rc, ds', w2)"
    and rd: "CHR ''w'' \<notin> set md2"
    and init2: "Dataset_init x u (Some md2) safe2 sh2 s2 w2 = (Inr ds2, w3)"
    and rt: "\<forall>sc j. serialize x sc = Inr j \<longrightarrow> deserialize x j = Inr sc"
    and pres_new: "\<forall>a fs. map_of (snd (DynamicTensor x a fs)) mk = map_of fs mk"
    and pres_commit: "\<forall>h fs. map_of (snd (snd (tensor_commit x h fs))) mk = map_of fs mk"
  shows "shape ds2 = [n] \<and> shape ds2 = shape ds \<and>
         schema ds2 = schema ds \<and> featurify x s = Inr (schema ds2) \<and>
         map fst (tensors ds2) = map fst (tensors ds) \<and>
         set (map fst (tensors ds2)) = set (map ft_path (flat_tensors ds))"
proof -
  have dsh: "default_shape (Some [n]) = [n]" by (simp add: default_shape_def)
  have cr: "init_create x u md pth [n] s w0 = (Inr ds, w1)"
    using init1 pth created dsh by (simp add: Dataset_init_def Let_def)
  have body: "init_create_body x u md pth [n] s w0 = (Inr ds, w1)"
    using cr by (cases "init_create_body x u md pth [n] s w0")
      (auto simp: init_create_def split: sum.splits)
  obtain sch j fts ts where
    ft: "featurify x s = Inr sch" and sr: "serialize x sch = Inr j" and
    fl: "flatten x sch = Inr fts" and
    gen: "generate_storage_tensors x pth md [n] fts [] (fs_map_set_meta pth [n] j 1 w0) = (Inr ts, w1)" and
    dsv: "ds = \<lparr>url = u, mode = md, path = pth, shape = [n], schema = sch,
                flat_tensors = fts, tensors = ts\<rparr>"
    using init_create_body_InrD [OF body] by blast
  have m0: "map_of (files (fs_map_set_meta pth [n] j 1 w0)) mk = Some (MetaFile [n] j 1)"
    by (simp add: fs_map_set_meta_def mk update_conv')
  have m1: "map_of (files w1) mk = Some (MetaFile [n] j 1)"
    using generate_preserves [OF pres_new gen m0] .
  have m2: "map_of (files w2) mk = Some (MetaFile [n] j 1)"
    using commit_preserves [OF pres_commit committed] m1 by simp
  have ex: "fs_exists w2 (posixpath_join pth ''meta.json'')"
    using m2 mk by (simp add: fs_exists_def)
  have chk: "check_and_prepare_dir pth md2 w2 = (Inr False, w2)"
    using ex rd by (simp add: check_and_prepare_dir_def)
  have rank2: "length (default_shape sh2) = 1"
  proof (rule ccontr)
    assume "length (default_shape sh2) \<noteq> 1"
    then have "Dataset_init x u (Some md2) safe2 sh2 s2 w2 = (Inl AssertionError, w2)"
      by (simp add: Dataset_init_def Let_def)
    then show False using init2 by simp
  qed
  have op: "init_open x u md2 pth w2 = (Inr ds2, w3)"
    using init2 pth chk rank2 by (simp add: Dataset_init_def Let_def)
  obtain msh mj sch2 fts2 ts2 where
    gm: "fs_map_get_meta pth w2 = Inr (msh, mj)" and de: "deserialize x mj = Inr sch2" and
    fl2: "flatten x sch2 = Inr fts2" and
    ot: "open_storage_tensors x pth md2 msh fts2 [] w2 = (Inr ts2, w3)" and
    ds2v: "ds2 = \<lparr>url = u, mode = md2, path = pth, shape = msh, schema = sch2,
                  flat_tensors = fts2, tensors = ts2\<rparr>"
    using init_open_InrD [OF op] by blast
  have "fs_map_get_meta pth w2 = Inr ([n], j)"
    using m2 mk by (simp add: fs_map_get_meta_def)
  then have msh: "msh = [n]" and mj: "mj = j" using gm by simp_all
  have "deserialize x j = Inr sch" using rt sr by blast
  then have sch2: "sch2 = sch" using de mj by simp
  then have fts2: "fts2 = fts" using fl fl2 by simp
  have k1: "map fst ts = foldl (\<lambda>ks t. if ft_path t \<in> set ks then ks else ks @ [ft_path t]) [] fts"
    using generate_keys [OF gen] by simp
  have k2: "map fst ts2 = foldl (\<lambda>ks t. if ft_path t \<in> set ks then ks else ks @ [ft_path t]) [] fts"
    using open_keys [OF ot] fts2 by simp
  have ks: "set (map fst ts2) = set (map ft_path fts)"
    unfolding k2 foldl_keys_set by simp
  show ?thesis using dsv ds2v msh sch2 ft k1 k2 ks by simp
qed


text \<open>Creation in mode \<^verbatim>\<open>w\<close> on absent storage, commit, reopening in mode \<^verbatim>\<open>r\<close>.\<close>

theorem create_commit_reopen_roundtrip_witness:
  "Dataset_init x_rec ''ds'' (Some ''w'') False (Some [Some 5]) [ft_label] w_absent =
     (Inr ds_created, w_created) \<and>
   commit x_rec ds_created w_created =
     (None, ds_created,
      w_created\<lparr>calls := calls w_created @ [CallCommit, CallTensorCommit ''/label'']\<rparr>) \<and>
   Dataset_init x_rec ''ds'' (Some ''r'') False None []
       (w_created\<lparr>calls := calls w_created @ [CallCommit, CallTensorCommit ''/label'']\<rparr>) =
     (Inr ds_reopened,
      w_created\<lparr>calls := calls w_created @
         [CallCommit, CallTensorCommit ''/label'', CallDynamicTensor ''/label'']\<rparr>) \<and>
   shape ds_reopened = [Some 5] \<and> shape ds_reopened = shape ds_created \<and>
   schema ds_reopened = schema ds_created \<and>
   map fst (tensors ds_reopened) = map fst (tensors ds_created) \<and>
   set (map fst (tensors ds_reopened)) = set (map ft_path (flat_tensors ds_created))"
proof -
  let ?w0 = "\<lparr>files = [([], Dir), ([''ds''], Dir)], calls = [CallMakedirs ''ds'']\<rparr>
               :: flat_tensor list world"
  let ?w2 = "w_created\<lparr>calls := calls w_created @ [CallCommit, CallTensorCommit ''/label'']\<rparr>"
  let ?w3 = "w_created\<lparr>calls := calls w_created @
         [CallCommit, CallTensorCommit ''/label'', CallDynamicTensor ''/label'']\<rparr>"
  have p: "''ds'' = get_fs_and_path x_rec ''ds''" by (simp add: x_rec_def)
  have c: "check_and_prepare_dir ''ds'' ''w'' w_absent = (Inr True, ?w0)"
    by (simp add: eval_init eval_fs)
  have i1: "Dataset_init x_rec ''ds'' (Some ''w'') False (Some [Some 5]) [ft_label] w_absent =
      (Inr ds_created, w_created)"
    by (simp add: eval_init eval_fs ds_created_def w_created_def)
  have cm: "commit x_rec ds_created w_created = (None, ds_created, ?w2)"
    by (simp add: commit_def x_rec_def ds_created_def w_created_def Let_def)
  have rd: "CHR ''w'' \<notin> set ''r''" by simp
  have i2: "Dataset_init x_rec ''ds'' (Some ''r'') False None [] ?w2 = (Inr ds_reopened, ?w3)"
    by (simp add: eval_init eval_fs ds_reopened_def w_created_def)
  have rt: "\<forall>sc j. serialize x_rec sc = Inr j \<longrightarrow> deserialize x_rec j = Inr sc"
    by (simp add: x_rec_def)
  have pn: "\<forall>a fs. map_of (snd (DynamicTensor x_rec a fs))
               (segs (posixpath_join ''ds'' ''meta.json'')) =
             map_of fs (segs (posixpath_join ''ds'' ''meta.json''))"
    by (simp add: x_rec_def)
  have pc: "\<forall>h fs. map_of (snd (snd (tensor_commit x_rec h fs)))
               (segs (posixpath_join ''ds'' ''meta.json'')) =
             map_of fs (segs (posixpath_join ''ds'' ''meta.json''))"
    by (simp add: x_rec_def)
  have r: "shape ds_reopened = [Some 5] \<and> shape ds_reopened = shape ds_created \<and>
         schema ds_reopened = schema ds_created \<and>
         featurify x_rec [ft_label] = Inr (schema ds_reopened) \<and>
         map fst (tensors ds_reopened) = map fst (tensors ds_created) \<and>
         set (map fst (tensors ds_reopened)) = set (map ft_path (flat_tensors ds_created))"
    using create_commit_reopen_roundtrip [OF p refl c i1 cm rd i2 rt pn pc] .
  show ?thesis using i1 cm i2 r by blast
qed

end
